theory Spec2Isabelle
  imports Main "HOL-Library.Word"
begin

section \<open>Atrium: identity, space and subscription modules\<close>

text \<open>
  A shallow embedding of the three Move modules \<open>atrium::identity\<close>, \<open>atrium::space\<close> and
  \<open>atrium::subscription\<close>. Move values of type \<open>u64\<close> are 64-bit words whose
  addition and multiplication abort on overflow; an \<open>assert!\<close> or \<open>abort\<close> is the left
  summand of the result; an \<open>&mut\<close> argument is returned updated; events emitted are
  returned as a list.
\<close>

subsection \<open>Values of the Move runtime\<close>

type_synonym u64 = "64 word"
type_synonym address = nat

text \<open>An object id: derived by the runtime from the transaction digest and the number of
  objects the transaction has created so far.\<close>

datatype ID = ObjID nat nat

record TxContext =
  sender :: address
  tx_hash :: nat
  ids_created :: nat

record Clock =
  timestamp_ms :: u64

record Coin =
  coin_uid :: ID
  coin_value :: u64

text \<open>Abort codes, named by module and constant. The last five are raised by the runtime
  and the framework: checked arithmetic, \<open>sui::dynamic_field\<close> (under \<open>sui::table\<close>),
  \<open>sui::balance\<close> and \<open>std::option\<close>.\<close>

datatype error =
    Identity_EIdentityAlreadyExists
  | Identity_ENotIdentityOwner
  | Identity_EImageRequired
  | Space_EInsufficientPayment
  | Space_ENotOwner
  | Subscription_EInsufficientPayment
  | Subscription_ENoIdentity
  | Subscription_ENoAvatar
  | Subscription_EAlreadySubscribed
  | Subscription_ENotSubscriber
  | Subscription_ENotOwner
  | ArithmeticError
  | EFieldAlreadyExists
  | EFieldDoesNotExist
  | ENotEnough
  | EOPTION_NOT_SET

text \<open>The \<open>u64\<close> code an abort carries. An arithmetic overflow is an error of the
  virtual machine and carries none.\<close>

fun abort_code :: "error \<Rightarrow> nat option" where
  "abort_code Identity_EIdentityAlreadyExists = Some 0"
| "abort_code Identity_ENotIdentityOwner = Some 1"
| "abort_code Identity_EImageRequired = Some 2"
| "abort_code Space_EInsufficientPayment = Some 0"
| "abort_code Space_ENotOwner = Some 1"
| "abort_code Subscription_EInsufficientPayment = Some 0"
| "abort_code Subscription_ENoIdentity = Some 1"
| "abort_code Subscription_ENoAvatar = Some 2"
| "abort_code Subscription_EAlreadySubscribed = Some 3"
| "abort_code Subscription_ENotSubscriber = Some 5"
| "abort_code Subscription_ENotOwner = Some 6"
| "abort_code ArithmeticError = None"
| "abort_code EFieldAlreadyExists = Some 0"
| "abort_code EFieldDoesNotExist = Some 1"
| "abort_code ENotEnough = Some 2"
| "abort_code EOPTION_NOT_SET = Some 262145"

definition bindE :: "error + 'a \<Rightarrow> ('a \<Rightarrow> error + 'b) \<Rightarrow> error + 'b" where
  "bindE m f = (case m of Inl e \<Rightarrow> Inl e | Inr v \<Rightarrow> f v)"

definition add_u64 :: "u64 \<Rightarrow> u64 \<Rightarrow> error + u64" where
  "add_u64 a b = (if unat a + unat b < 2 ^ 64 then Inr (a + b) else Inl ArithmeticError)"

definition mul_u64 :: "u64 \<Rightarrow> u64 \<Rightarrow> error + u64" where
  "mul_u64 a b = (if unat a * unat b < 2 ^ 64 then Inr (a * b) else Inl ArithmeticError)"

definition object_new :: "TxContext \<Rightarrow> ID \<times> TxContext" where
  "object_new ctx =
     (ObjID (tx_hash ctx) (ids_created ctx), ctx\<lparr>ids_created := ids_created ctx + 1\<rparr>)"

text \<open>\<open>coin::split\<close>: takes \<open>amount\<close> out of the coin into a new coin object.\<close>

definition coin_split :: "Coin \<Rightarrow> u64 \<Rightarrow> TxContext \<Rightarrow> error + (Coin \<times> Coin \<times> TxContext)" where
  "coin_split c amount ctx =
     (if coin_value c < amount then Inl ENotEnough
      else (let (uid, ctx') = object_new ctx
            in Inr (\<lparr>coin_uid = uid, coin_value = amount\<rparr>,
                    c\<lparr>coin_value := coin_value c - amount\<rparr>, ctx')))"

subsection \<open>\<open>sui::table\<close>\<close>

text \<open>A table is kept as the list of its entries in insertion order. \<open>add\<close> aborts on a key
  that is present, \<open>borrow\<close> and \<open>remove\<close> on a key that is absent. \<open>table_write\<close>
  stores back the value mutated through \<open>borrow_mut\<close>.\<close>

type_synonym ('k, 'v) table = "('k \<times> 'v) list"

definition table_new :: "TxContext \<Rightarrow> ('k, 'v) table \<times> TxContext" where
  "table_new ctx = ([], snd (object_new ctx))"

definition table_contains :: "('k, 'v) table \<Rightarrow> 'k \<Rightarrow> bool" where
  "table_contains t k = (map_of t k \<noteq> None)"

definition table_add :: "('k, 'v) table \<Rightarrow> 'k \<Rightarrow> 'v \<Rightarrow> error + ('k, 'v) table" where
  "table_add t k v = (if table_contains t k then Inl EFieldAlreadyExists else Inr (t @ [(k, v)]))"

definition table_borrow :: "('k, 'v) table \<Rightarrow> 'k \<Rightarrow> error + 'v" where
  "table_borrow t k = (case map_of t k of None \<Rightarrow> Inl EFieldDoesNotExist | Some v \<Rightarrow> Inr v)"

definition table_write :: "('k, 'v) table \<Rightarrow> 'k \<Rightarrow> 'v \<Rightarrow> ('k, 'v) table" where
  "table_write t k v = map (\<lambda>(k', v'). if k' = k then (k', v) else (k', v')) t"

definition table_remove :: "('k, 'v) table \<Rightarrow> 'k \<Rightarrow> error + ('v \<times> ('k, 'v) table)" where
  "table_remove t k =
     (case map_of t k of None \<Rightarrow> Inl EFieldDoesNotExist
      | Some v \<Rightarrow> Inr (v, filter (\<lambda>(k', v'). k' \<noteq> k) t))"

subsection \<open>Events\<close>

datatype event =
    IdentityMinted ID address string u64
  | AvatarBound ID address string
  | SpaceConfigUpdated ID address string u64
  | FanAvatarAdded ID address string
  | ContentAdded ID ID string "8 word" string string bool u64 "string list" address u64
  | SubscriptionCreated ID ID address u64 u64
  | SubscriptionRenewed ID u64 u64

subsection \<open>Module \<open>atrium::identity\<close>\<close>

record Identity =
  identity_uid :: ID
  owner :: address
  username :: string
  bio :: string
  avatar_blob_id :: "string option"
  image_blob_id :: string
  created_at :: u64
  is_creator :: bool

record IdentityRegistry =
  identity_registry_uid :: ID
  identities :: "(address, ID) table"
  total_identities :: u64
  total_creators :: u64

definition identity_init :: "TxContext \<Rightarrow> IdentityRegistry \<times> TxContext" where
  "identity_init ctx =
     (let (uid, ctx1) = object_new ctx;
          (tbl, ctx2) = table_new ctx1
      in (\<lparr>identity_registry_uid = uid, identities = tbl,
           total_identities = 0, total_creators = 0\<rparr>, ctx2))"

definition mint_identity ::
  "IdentityRegistry \<Rightarrow> string \<Rightarrow> string \<Rightarrow> string \<Rightarrow> string \<Rightarrow> Clock \<Rightarrow> TxContext
   \<Rightarrow> error + (Identity \<times> IdentityRegistry \<times> event list \<times> TxContext)" where
  "mint_identity registry username' bio' avatar_blob_id' image_blob_id' clock ctx =
     (let sender' = sender ctx in
      if table_contains (identities registry) sender' then Inl Identity_EIdentityAlreadyExists
      else if image_blob_id' = [] then Inl Identity_EImageRequired
      else
        (let avatar_opt = (if avatar_blob_id' = [] then None else Some avatar_blob_id');
             (uid, ctx') = object_new ctx;
             identity' = \<lparr>identity_uid = uid, owner = sender', username = username',
                          bio = bio', avatar_blob_id = avatar_opt,
                          image_blob_id = image_blob_id',
                          created_at = timestamp_ms clock, is_creator = False\<rparr>;
             identity_id = identity_uid identity'
         in bindE (table_add (identities registry) sender' identity_id) (\<lambda>identities'.
            bindE (add_u64 (total_identities registry) 1) (\<lambda>total'.
            Inr (identity',
                 registry\<lparr>identities := identities', total_identities := total'\<rparr>,
                 [IdentityMinted identity_id sender' (username identity') (created_at identity')],
                 ctx')))))"

definition bind_avatar :: "Identity \<Rightarrow> string \<Rightarrow> TxContext \<Rightarrow> error + (Identity \<times> event list)" where
  "bind_avatar identity' avatar_blob_id' ctx =
     (if owner identity' \<noteq> sender ctx then Inl Identity_ENotIdentityOwner
      else (let identity'' = identity'\<lparr>avatar_blob_id := Some avatar_blob_id'\<rparr>
            in Inr (identity'',
                    [AvatarBound (identity_uid identity'') (owner identity'') avatar_blob_id'])))"

definition update_image :: "Identity \<Rightarrow> string \<Rightarrow> TxContext \<Rightarrow> error + Identity" where
  "update_image identity' image_blob_id' ctx =
     (if owner identity' \<noteq> sender ctx then Inl Identity_ENotIdentityOwner
      else if image_blob_id' = [] then Inl Identity_EImageRequired
      else Inr (identity'\<lparr>image_blob_id := image_blob_id'\<rparr>))"

definition update_bio :: "Identity \<Rightarrow> string \<Rightarrow> TxContext \<Rightarrow> error + Identity" where
  "update_bio identity' bio' ctx =
     (if owner identity' \<noteq> sender ctx then Inl Identity_ENotIdentityOwner
      else Inr (identity'\<lparr>bio := bio'\<rparr>))"

definition has_identity :: "IdentityRegistry \<Rightarrow> address \<Rightarrow> bool" where
  "has_identity registry addr = table_contains (identities registry) addr"

definition get_identity_id :: "IdentityRegistry \<Rightarrow> address \<Rightarrow> ID option" where
  "get_identity_id registry addr =
     (if table_contains (identities registry) addr then map_of (identities registry) addr
      else None)"

definition increment_creator_count :: "IdentityRegistry \<Rightarrow> error + IdentityRegistry" where
  "increment_creator_count registry =
     bindE (add_u64 (total_creators registry) 1) (\<lambda>n. Inr (registry\<lparr>total_creators := n\<rparr>))"

subsection \<open>Module \<open>atrium::space\<close>\<close>

record Space =
  space_uid :: ID
  name :: string
  description :: string
  cover_image :: string
  config_quilt :: string
  video_blob_ids :: "string list"
  subscription_price :: u64
  creator :: address
  marketplace_kiosk_id :: ID
  space_created_at :: u64
  updated_at :: u64

record SpaceOwnership =
  ownership_uid :: ID
  ownership_space_id :: ID

record FanAvatar =
  fan_owner :: address
  fan_avatar_blob_id :: string

record FanRegistry =
  fan_registry_uid :: ID
  fans :: "(ID, (address, FanAvatar) table) table"

record SpaceRegistry =
  space_registry_uid :: ID
  spaces :: "ID list"
  total_spaces :: u64

definition space_init :: "TxContext \<Rightarrow> SpaceRegistry \<times> FanRegistry \<times> TxContext" where
  "space_init ctx =
     (let (uid, ctx1) = object_new ctx;
          registry = \<lparr>space_registry_uid = uid, spaces = [], total_spaces = 0\<rparr>;
          (fan_uid, ctx2) = object_new ctx1;
          (tbl, ctx3) = table_new ctx2;
          fan_registry = \<lparr>fan_registry_uid = fan_uid, fans = tbl\<rparr>
      in (registry, fan_registry, ctx3))"

definition get_space_ownership_space_id :: "SpaceOwnership \<Rightarrow> ID" where
  "get_space_ownership_space_id ownership = ownership_space_id ownership"

definition update_space_config ::
  "Space \<Rightarrow> SpaceOwnership \<Rightarrow> string option \<Rightarrow> string option \<Rightarrow> string option
   \<Rightarrow> string option \<Rightarrow> u64 option \<Rightarrow> Clock \<Rightarrow> error + (Space \<times> event list)" where
  "update_space_config space ownership new_name new_description new_cover_image
      new_config_quilt new_subscription_price clock =
     (let space_id' = space_uid space in
      if ownership_space_id ownership \<noteq> space_id' then Inl Space_ENotOwner
      else
        (let s1 = (case new_name of Some v \<Rightarrow> space\<lparr>name := v\<rparr> | None \<Rightarrow> space);
             s2 = (case new_description of Some v \<Rightarrow> s1\<lparr>description := v\<rparr> | None \<Rightarrow> s1);
             s3 = (case new_cover_image of Some v \<Rightarrow> s2\<lparr>cover_image := v\<rparr> | None \<Rightarrow> s2);
             s4 = (case new_config_quilt of Some quilt \<Rightarrow> s3\<lparr>config_quilt := quilt\<rparr>
                   | None \<Rightarrow> s3);
             s5 = (case new_subscription_price of Some v \<Rightarrow> s4\<lparr>subscription_price := v\<rparr>
                   | None \<Rightarrow> s4);
             s6 = s5\<lparr>updated_at := timestamp_ms clock\<rparr>
         in Inr (s6, [SpaceConfigUpdated space_id' (creator s6) (config_quilt s6)
                        (updated_at s6)])))"

definition add_fan_avatar ::
  "FanRegistry \<Rightarrow> Space \<Rightarrow> address \<Rightarrow> string \<Rightarrow> TxContext
   \<Rightarrow> error + (FanRegistry \<times> event list \<times> TxContext)" where
  "add_fan_avatar fan_registry space fan_address avatar_blob_id' ctx =
     (let space_id' = space_uid space;
          fan_avatar = \<lparr>fan_owner = fan_address, fan_avatar_blob_id = avatar_blob_id'\<rparr>
      in bindE (if \<not> table_contains (fans fan_registry) space_id'
                then (let (tbl, ctx') = table_new ctx
                      in bindE (table_add (fans fan_registry) space_id' tbl)
                           (\<lambda>fans'. Inr (fans', ctx')))
                else Inr (fans fan_registry, ctx)) (\<lambda>(fans1, ctx1).
         bindE (table_borrow fans1 space_id') (\<lambda>space_fans.
         bindE (if table_contains space_fans fan_address
                then bindE (table_remove space_fans fan_address) (\<lambda>(old, rest). Inr rest)
                else Inr space_fans) (\<lambda>space_fans1.
         bindE (table_add space_fans1 fan_address fan_avatar) (\<lambda>space_fans2.
         Inr (fan_registry\<lparr>fans := table_write fans1 space_id' space_fans2\<rparr>,
              [FanAvatarAdded space_id' fan_address avatar_blob_id'],
              ctx1))))))"

definition add_video ::
  "Space \<Rightarrow> SpaceOwnership \<Rightarrow> string \<Rightarrow> Clock \<Rightarrow> error + Space" where
  "add_video space ownership video_blob_id clock =
     (if ownership_space_id ownership \<noteq> space_uid space then Inl Space_ENotOwner
      else Inr (space\<lparr>video_blob_ids := video_blob_ids space @ [video_blob_id],
                       updated_at := timestamp_ms clock\<rparr>))"

definition record_content ::
  "Space \<Rightarrow> SpaceOwnership \<Rightarrow> ID \<Rightarrow> string \<Rightarrow> 8 word \<Rightarrow> string \<Rightarrow> string \<Rightarrow> bool
   \<Rightarrow> u64 \<Rightarrow> string list \<Rightarrow> Clock \<Rightarrow> TxContext \<Rightarrow> error + event list" where
  "record_content space ownership blob_object_id blob_id content_type title description'
      encrypted price tags clock ctx =
     (let space_id' = space_uid space in
      if ownership_space_id ownership \<noteq> space_id' then Inl Space_ENotOwner
      else Inr [ContentAdded space_id' blob_object_id blob_id content_type title description'
                  encrypted price tags (sender ctx) (timestamp_ms clock)])"

subsection \<open>Module \<open>atrium::subscription\<close>\<close>

definition ONE_DAY_MS :: u64 where
  "ONE_DAY_MS = 86400000"

record Subscription =
  subscription_uid :: ID
  space_id :: ID
  subscriber :: address
  subscribed_at :: u64
  expires_at :: u64
  duration_days :: u64

record SubscriptionRegistry =
  subscription_registry_uid :: ID
  subscriptions :: "(ID, (address, ID) table) table"
  total_subscriptions :: u64
  active_subscriptions :: u64

definition subscription_init :: "TxContext \<Rightarrow> SubscriptionRegistry \<times> TxContext" where
  "subscription_init ctx =
     (let (uid, ctx1) = object_new ctx;
          (tbl, ctx2) = table_new ctx1
      in (\<lparr>subscription_registry_uid = uid, subscriptions = tbl,
           total_subscriptions = 0, active_subscriptions = 0\<rparr>, ctx2))"

definition is_subscribed_internal :: "SubscriptionRegistry \<Rightarrow> address \<Rightarrow> ID \<Rightarrow> bool" where
  "is_subscribed_internal registry subscriber' space_kiosk_id =
     (if \<not> table_contains (subscriptions registry) space_kiosk_id then False
      else (case map_of (subscriptions registry) space_kiosk_id of
              Some space_subs \<Rightarrow> table_contains space_subs subscriber'
            | None \<Rightarrow> False))"

definition is_subscribed :: "SubscriptionRegistry \<Rightarrow> address \<Rightarrow> ID \<Rightarrow> Clock \<Rightarrow> bool" where
  "is_subscribed registry subscriber' space_kiosk_id clock =
     is_subscribed_internal registry subscriber' space_kiosk_id"

definition is_expired :: "Subscription \<Rightarrow> Clock \<Rightarrow> bool" where
  "is_expired subscription clock = (expires_at subscription < timestamp_ms clock)"

text \<open>Both \<open>create_creator_subscription\<close> and \<open>subscribe\<close> register the new
  subscription id under \<open>(space_id, subscriber)\<close>: the inner table is created on first
  use, then borrowed mutably and extended.\<close>

definition create_creator_subscription ::
  "SubscriptionRegistry \<Rightarrow> Space \<Rightarrow> address \<Rightarrow> Clock \<Rightarrow> TxContext
   \<Rightarrow> error + (Subscription \<times> SubscriptionRegistry \<times> event list \<times> TxContext)" where
  "create_creator_subscription registry space creator' clock ctx =
     (let space_id' = space_uid space;
          (uid, ctx1) = object_new ctx;
          subscription = \<lparr>subscription_uid = uid, space_id = space_id',
                          subscriber = creator', subscribed_at = timestamp_ms clock,
                          expires_at = 18446744073709551615, duration_days = 0\<rparr>;
          subscription_id = subscription_uid subscription
      in bindE (if \<not> table_contains (subscriptions registry) space_id'
                then (let (tbl, ctx') = table_new ctx1
                      in bindE (table_add (subscriptions registry) space_id' tbl)
                           (\<lambda>subs'. Inr (subs', ctx')))
                else Inr (subscriptions registry, ctx1)) (\<lambda>(subs1, ctx2).
         bindE (table_borrow subs1 space_id') (\<lambda>space_subs.
         bindE (table_add space_subs creator' subscription_id) (\<lambda>space_subs1.
         bindE (add_u64 (total_subscriptions registry) 1) (\<lambda>total'.
         bindE (add_u64 (active_subscriptions registry) 1) (\<lambda>active'.
         Inr (subscription,
              registry\<lparr>subscriptions := table_write subs1 space_id' space_subs1,
                        total_subscriptions := total', active_subscriptions := active'\<rparr>,
              [SubscriptionCreated subscription_id space_id' creator'
                 18446744073709551615 0],
              ctx2)))))))"

definition subscribe ::
  "SubscriptionRegistry \<Rightarrow> FanRegistry \<Rightarrow> Space \<Rightarrow> Identity \<Rightarrow> Coin \<Rightarrow> u64 \<Rightarrow> Clock
   \<Rightarrow> TxContext
   \<Rightarrow> error + (Subscription \<times> Coin \<times> Coin \<times> SubscriptionRegistry \<times> FanRegistry
                \<times> event list \<times> TxContext)" where
  "subscribe registry fan_registry space identity' payment duration_days' clock ctx =
     (let sender' = sender ctx;
          space_id' = space_uid space
      in
      if owner identity' \<noteq> sender' then Inl Subscription_ENoIdentity
      else if avatar_blob_id identity' = None then Inl Subscription_ENoAvatar
      else if is_subscribed_internal registry sender' space_id'
        then Inl Subscription_EAlreadySubscribed
      else
        (let subscription_price' = subscription_price space
         in bindE (mul_u64 subscription_price' duration_days') (\<lambda>total_price.
            if \<not> (coin_value payment \<ge> total_price)
              then Inl Subscription_EInsufficientPayment
            else
            bindE (coin_split payment total_price ctx) (\<lambda>(payment_amount, payment1, ctx1).
            let current_time = timestamp_ms clock
            in bindE (mul_u64 duration_days' ONE_DAY_MS) (\<lambda>days_ms.
            bindE (add_u64 current_time days_ms) (\<lambda>expires_at'.
            let (uid, ctx2) = object_new ctx1;
                subscription = \<lparr>subscription_uid = uid, space_id = space_id',
                                subscriber = sender', subscribed_at = current_time,
                                expires_at = expires_at', duration_days = duration_days'\<rparr>;
                subscription_id = subscription_uid subscription
            in bindE (if \<not> table_contains (subscriptions registry) space_id'
                      then (let (tbl, ctx') = table_new ctx2
                            in bindE (table_add (subscriptions registry) space_id' tbl)
                                 (\<lambda>subs'. Inr (subs', ctx')))
                      else Inr (subscriptions registry, ctx2)) (\<lambda>(subs1, ctx3).
            bindE (table_borrow subs1 space_id') (\<lambda>space_subs.
            bindE (table_add space_subs sender' subscription_id) (\<lambda>space_subs1.
            bindE (add_u64 (total_subscriptions registry) 1) (\<lambda>total'.
            bindE (add_u64 (active_subscriptions registry) 1) (\<lambda>active'.
            let registry' = registry\<lparr>subscriptions := table_write subs1 space_id' space_subs1,
                                     total_subscriptions := total',
                                     active_subscriptions := active'\<rparr>
            in (case avatar_blob_id identity' of
                  None \<Rightarrow> Inl EOPTION_NOT_SET
                | Some avatar_blob_id' \<Rightarrow>
                    bindE (add_fan_avatar fan_registry space sender' avatar_blob_id' ctx3)
                      (\<lambda>(fan_registry', fan_events, ctx4).
                    Inr (subscription, payment_amount, payment1, registry', fan_registry',
                         fan_events @ [SubscriptionCreated subscription_id space_id' sender'
                                         expires_at' total_price],
                         ctx4))))))))))))))"

definition renew_subscription ::
  "SubscriptionRegistry \<Rightarrow> Subscription \<Rightarrow> Coin \<Rightarrow> Space \<Rightarrow> u64 \<Rightarrow> Clock \<Rightarrow> TxContext
   \<Rightarrow> error + (Coin \<times> Coin \<times> SubscriptionRegistry \<times> Subscription \<times> event list
                \<times> TxContext)" where
  "renew_subscription registry subscription payment space additional_days clock ctx =
     (if subscriber subscription \<noteq> sender ctx then Inl Subscription_ENotSubscriber
      else
        (let subscription_price' = subscription_price space
         in bindE (mul_u64 subscription_price' additional_days) (\<lambda>total_price.
            if \<not> (coin_value payment \<ge> total_price)
              then Inl Subscription_EInsufficientPayment
            else
            bindE (coin_split payment total_price ctx) (\<lambda>(payment_amount, payment1, ctx1).
            let current_time = timestamp_ms clock
            in bindE (mul_u64 additional_days ONE_DAY_MS) (\<lambda>extension.
            bindE (if expires_at subscription < current_time
                   then add_u64 current_time extension
                   else add_u64 (expires_at subscription) extension) (\<lambda>expires_at'.
            bindE (add_u64 (duration_days subscription) additional_days) (\<lambda>duration_days'.
            let subscription' = subscription\<lparr>expires_at := expires_at',
                                             duration_days := duration_days'\<rparr>
            in Inr (payment_amount, payment1, registry, subscription',
                    [SubscriptionRenewed (subscription_uid subscription')
                       (expires_at subscription') total_price],
                    ctx1))))))))"

definition seal_approve_as_creator ::
  "8 word list \<Rightarrow> Space \<Rightarrow> SpaceOwnership \<Rightarrow> error + unit" where
  "seal_approve_as_creator seal_id space ownership =
     (if \<not> (get_space_ownership_space_id ownership = space_uid space)
        then Inl Subscription_ENotOwner
      else Inr ())"

definition seal_approve_as_subscriber ::
  "8 word list \<Rightarrow> Space \<Rightarrow> Subscription \<Rightarrow> Clock \<Rightarrow> TxContext \<Rightarrow> error + unit" where
  "seal_approve_as_subscriber seal_id space subscription clock ctx =
     (let space_id' = space_uid space in
      if \<not> (subscriber subscription = sender ctx) then Inl Subscription_ENotSubscriber
      else if \<not> (space_id subscription = space_id') then Inl Subscription_ENotSubscriber
      else if \<not> (\<not> is_expired subscription clock) then Inl Subscription_ENotSubscriber
      else Inr ())"

section \<open>Transactions and reachable states\<close>

text \<open>An abort reverts the whole transaction: the shared objects are left as they were.
  The functions below give the registry a call leaves behind.\<close>

definition mint_identity_tx ::
  "IdentityRegistry \<Rightarrow> string \<Rightarrow> string \<Rightarrow> string \<Rightarrow> string \<Rightarrow> Clock \<Rightarrow> TxContext
   \<Rightarrow> IdentityRegistry" where
  "mint_identity_tx registry username' bio' avatar_blob_id' image_blob_id' clock ctx =
     (case mint_identity registry username' bio' avatar_blob_id' image_blob_id' clock ctx of
        Inl e \<Rightarrow> registry
      | Inr (identity', registry', events, ctx') \<Rightarrow> registry')"

definition subscribe_tx ::
  "SubscriptionRegistry \<Rightarrow> FanRegistry \<Rightarrow> Space \<Rightarrow> Identity \<Rightarrow> Coin \<Rightarrow> u64 \<Rightarrow> Clock
   \<Rightarrow> TxContext \<Rightarrow> SubscriptionRegistry \<times> FanRegistry \<times> Coin" where
  "subscribe_tx registry fan_registry space identity' payment duration_days' clock ctx =
     (case subscribe registry fan_registry space identity' payment duration_days' clock ctx of
        Inl e \<Rightarrow> (registry, fan_registry, payment)
      | Inr (subscription, payment_amount, payment', registry', fan_registry', events, ctx') \<Rightarrow>
          (registry', fan_registry', payment'))"

text \<open>The identity registries that can exist: the one \<open>init\<close> shares, changed only by
  \<open>mint_identity\<close> and by \<open>increment_creator_count\<close> (which \<open>initialize_space\<close>
  calls).\<close>

inductive reachable_identity_registry :: "IdentityRegistry \<Rightarrow> bool" where
  reach_init: "reachable_identity_registry (fst (identity_init ctx))"
| reach_mint:
    "reachable_identity_registry registry \<Longrightarrow>
     mint_identity registry username' bio' avatar_blob_id' image_blob_id' clock ctx
       = Inr (identity', registry', events, ctx') \<Longrightarrow>
     reachable_identity_registry registry'"
| reach_creator:
    "reachable_identity_registry registry \<Longrightarrow>
     increment_creator_count registry = Inr registry' \<Longrightarrow>
     reachable_identity_registry registry'"

text \<open>The subscription registries that can exist, with the \<open>(space, subscriber)\<close> pairs
  registered on the way: the one \<open>init\<close> shares, changed by \<open>subscribe\<close> and
  \<open>create_creator_subscription\<close>; \<open>renew_subscription\<close> takes the registry but
  returns it as it was.\<close>

inductive reachable_subscription_registry ::
  "(ID \<times> address) list \<Rightarrow> SubscriptionRegistry \<Rightarrow> bool" where
  reach_sub_init: "reachable_subscription_registry [] (fst (subscription_init ctx))"
| reach_subscribe:
    "reachable_subscription_registry pairs registry \<Longrightarrow>
     subscribe registry fan_registry space identity' payment duration_days' clock ctx
       = Inr (subscription, payment_amount, payment', registry', fan_registry', events, ctx')
     \<Longrightarrow>
     reachable_subscription_registry ((space_uid space, sender ctx) # pairs) registry'"
| reach_creator_subscription:
    "reachable_subscription_registry pairs registry \<Longrightarrow>
     create_creator_subscription registry space creator' clock ctx
       = Inr (subscription, registry', events, ctx') \<Longrightarrow>
     reachable_subscription_registry ((space_uid space, creator') # pairs) registry'"
| reach_renew:
    "reachable_subscription_registry pairs registry \<Longrightarrow>
     renew_subscription registry subscription payment space additional_days clock ctx
       = Inr (payment_amount, payment', registry', subscription', events, ctx') \<Longrightarrow>
     reachable_subscription_registry pairs registry'"

subsection \<open>Scenario values\<close>

text \<open>Two spaces with different prices, a fan (address 20) and a creator (address 10).\<close>

definition genesis_ctx :: TxContext where
  "genesis_ctx = \<lparr>sender = 1, tx_hash = 0, ids_created = 0\<rparr>"

definition fan_ctx :: TxContext where
  "fan_ctx = \<lparr>sender = 20, tx_hash = 7, ids_created = 0\<rparr>"

definition creator_ctx :: TxContext where
  "creator_ctx = \<lparr>sender = 10, tx_hash = 3, ids_created = 0\<rparr>"

definition space_A :: Space where
  "space_A = \<lparr>space_uid = ObjID 1 0, name = ''Gallery A'', description = ''first'',
     cover_image = ''cover-a'', config_quilt = ''quilt-a'', video_blob_ids = [],
     subscription_price = 100, creator = 10, marketplace_kiosk_id = ObjID 1 1,
     space_created_at = 1000, updated_at = 1000\<rparr>"

definition space_B :: Space where
  "space_B = \<lparr>space_uid = ObjID 2 0, name = ''Gallery B'', description = ''second'',
     cover_image = ''cover-b'', config_quilt = ''quilt-b'', video_blob_ids = [],
     subscription_price = 1, creator = 11, marketplace_kiosk_id = ObjID 2 1,
     space_created_at = 2000, updated_at = 2000\<rparr>"

text \<open>The fan's identity as \<open>mint_identity\<close> returns it for an empty avatar string, and
  the same identity with an avatar bound.\<close>

definition fan_identity :: Identity where
  "fan_identity = \<lparr>identity_uid = ObjID 7 0, owner = 20, username = ''fan'', bio = ''hello'',
     avatar_blob_id = None, image_blob_id = ''img'', created_at = 100, is_creator = False\<rparr>"

definition fan_with_avatar :: Identity where
  "fan_with_avatar = fan_identity\<lparr>avatar_blob_id := Some ''glb''\<rparr>"

text \<open>The fan's subscription to space A: five days bought at time 5000.\<close>

definition sub_A :: Subscription where
  "sub_A = \<lparr>subscription_uid = ObjID 7 1, space_id = ObjID 1 0, subscriber = 20,
     subscribed_at = 5000, expires_at = 432005000, duration_days = 5\<rparr>"

text \<open>The creator's lifetime subscription to space A, as \<open>create_creator_subscription\<close>
  returns it.\<close>

definition creator_sub :: Subscription where
  "creator_sub = \<lparr>subscription_uid = ObjID 3 0, space_id = ObjID 1 0, subscriber = 10,
     subscribed_at = 1000, expires_at = 18446744073709551615, duration_days = 0\<rparr>"

definition empty_identity_registry :: IdentityRegistry where
  "empty_identity_registry = fst (identity_init genesis_ctx)"

definition empty_subscription_registry :: SubscriptionRegistry where
  "empty_subscription_registry = fst (subscription_init genesis_ctx)"

definition empty_fan_registry :: FanRegistry where
  "empty_fan_registry = fst (snd (space_init genesis_ctx))"

text \<open>The creator's identity, minted without an avatar.\<close>

definition creator_identity :: Identity where
  "creator_identity = \<lparr>identity_uid = ObjID 2 0, owner = 10, username = ''creator'',
     bio = ''maker'', avatar_blob_id = None, image_blob_id = ''img-c'', created_at = 50,
     is_creator = False\<rparr>"

text \<open>The subscription registry after the fan's subscription to space A, and the one after
  the creator's lifetime subscription to space A.\<close>

definition fan_registered :: SubscriptionRegistry where
  "fan_registered = \<lparr>subscription_registry_uid = ObjID 0 0,
     subscriptions = [(ObjID 1 0, [(20, ObjID 7 1)])],
     total_subscriptions = 1, active_subscriptions = 1\<rparr>"

definition creator_registered :: SubscriptionRegistry where
  "creator_registered = \<lparr>subscription_registry_uid = ObjID 0 0,
     subscriptions = [(ObjID 1 0, [(10, ObjID 3 0)])],
     total_subscriptions = 1, active_subscriptions = 1\<rparr>"

section \<open>Auxiliary facts\<close>

subsection \<open>Aborts, checked arithmetic and tables\<close>

lemma bindE_Inl [simp]: "bindE (Inl e) f = Inl e"
  by (simp add: bindE_def)

lemma bindE_Inr [simp]: "bindE (Inr v) f = f v"
  by (simp add: bindE_def)

lemma bindE_eq_Inr: "bindE m f = Inr r \<longleftrightarrow> (\<exists>v. m = Inr v \<and> f v = Inr r)"
  by (cases m) simp_all

lemma add_u64_eq_Inr: "add_u64 a b = Inr c \<longleftrightarrow> unat a + unat b < 2 ^ 64 \<and> c = a + b"
  by (auto simp: add_u64_def)

lemma add_u64_unat: "add_u64 a b = Inr c \<Longrightarrow> unat c = unat a + unat b"
  by (auto simp: add_u64_def unat_word_ariths split: if_splits)

lemma mul_u64_eq_Inr: "mul_u64 a b = Inr c \<longleftrightarrow> unat a * unat b < 2 ^ 64 \<and> c = a * b"
  by (auto simp: mul_u64_def)

lemma mul_u64_unat: "mul_u64 a b = Inr c \<Longrightarrow> unat c = unat a * unat b"
  by (auto simp: mul_u64_def unat_word_ariths split: if_splits)

lemma table_contains_iff: "table_contains t k \<longleftrightarrow> k \<in> fst ` set t"
  by (simp add: table_contains_def map_of_eq_None_iff)

lemma table_add_eq_Inr:
  "table_add t k v = Inr t' \<longleftrightarrow> \<not> table_contains t k \<and> t' = t @ [(k, v)]"
  by (auto simp: table_add_def)

lemma table_contains_append [simp]:
  "table_contains (t @ [(k, v)]) k' \<longleftrightarrow> table_contains t k' \<or> k' = k"
  by (auto simp: table_contains_iff)

lemma map_of_table_write:
  "map_of (table_write t k v) k' = (if k' = k \<and> table_contains t k then Some v else map_of t k')"
  by (induction t) (auto simp: table_write_def table_contains_def)

lemma table_contains_table_write [simp]:
  "table_contains (table_write t k v) k' = table_contains t k'"
  by (auto simp: table_contains_def map_of_table_write)

lemma table_borrow_eq_Inr: "table_borrow t k = Inr v \<longleftrightarrow> map_of t k = Some v"
  by (simp add: table_borrow_def split: option.splits)

lemma map_of_append_new:
  "\<not> table_contains t k \<Longrightarrow> map_of (t @ [(k, v)]) k' = (if k' = k then Some v else map_of t k')"
  by (auto simp: table_contains_def map_add_def split: option.splits)

lemma table_remove_eq_Inr:
  "table_remove t k = Inr r \<longleftrightarrow>
     (\<exists>v. map_of t k = Some v \<and> r = (v, filter (\<lambda>(k', v'). k' \<noteq> k) t))"
  by (auto simp: table_remove_def split: option.splits)

lemma table_contains_removed [simp]:
  "\<not> table_contains (filter (\<lambda>(k', v'). k' \<noteq> k) t) k"
  by (auto simp: table_contains_iff)

lemma table_contains_Nil [simp]: "\<not> table_contains [] k"
  by (simp add: table_contains_def)

lemma table_contains_Some: "map_of t k = Some v \<Longrightarrow> table_contains t k"
  by (simp add: table_contains_def)

lemma table_contains_None: "map_of t k = None \<Longrightarrow> \<not> table_contains t k"
  by (simp add: table_contains_def)

lemma table_add_new: "\<not> table_contains t k \<Longrightarrow> table_add t k v = Inr (t @ [(k, v)])"
  by (simp add: table_add_def)

lemma table_borrow_Some: "map_of t k = Some v \<Longrightarrow> table_borrow t k = Inr v"
  by (simp add: table_borrow_def)

lemma table_borrow_append_new:
  "\<not> table_contains t k \<Longrightarrow> table_borrow (t @ [(k, v)]) k = Inr v"
  by (simp add: table_borrow_def table_contains_def map_add_def)

lemma table_remove_Some:
  "map_of t k = Some v \<Longrightarrow> table_remove t k = Inr (v, filter (\<lambda>(k', v'). k' \<noteq> k) t)"
  by (simp add: table_remove_def)

subsection \<open>What a successful \<open>subscribe\<close> has checked and written\<close>

lemma subscribe_InrD:
  assumes "subscribe registry fan_registry space identity' payment days clock ctx
             = Inr (sub, paid, change, registry', fan_registry', events, ctx')"
  shows "owner identity' = sender ctx"
    and "avatar_blob_id identity' \<noteq> None"
    and "\<not> is_subscribed_internal registry (sender ctx) (space_uid space)"
    and "unat (subscription_price space) * unat days < 2 ^ 64"
    and "subscription_price space * days \<le> coin_value payment"
    and "coin_value paid = subscription_price space * days"
    and "coin_value change = coin_value payment - subscription_price space * days"
    and "unat days * unat ONE_DAY_MS < 2 ^ 64"
    and "unat (timestamp_ms clock) + unat (days * ONE_DAY_MS) < 2 ^ 64"
    and "sub = \<lparr>subscription_uid = ObjID (tx_hash ctx) (ids_created ctx + 1),
                 space_id = space_uid space, subscriber = sender ctx,
                 subscribed_at = timestamp_ms clock,
                 expires_at = timestamp_ms clock + days * ONE_DAY_MS, duration_days = days\<rparr>"
    and "total_subscriptions registry' = total_subscriptions registry + 1"
    and "active_subscriptions registry' = active_subscriptions registry + 1"
    and "subscriptions registry' =
           (case map_of (subscriptions registry) (space_uid space) of
              Some space_subs \<Rightarrow>
                table_write (subscriptions registry) (space_uid space)
                  (space_subs @ [(sender ctx, ObjID (tx_hash ctx) (ids_created ctx + 1))])
            | None \<Rightarrow>
                table_write (subscriptions registry @ [(space_uid space, [])]) (space_uid space)
                  [(sender ctx, ObjID (tx_hash ctx) (ids_created ctx + 1))])"
  using assms unfolding subscribe_def Let_def
  by (auto simp: bindE_eq_Inr mul_u64_eq_Inr add_u64_eq_Inr coin_split_def object_new_def
        table_new_def table_add_eq_Inr table_borrow_eq_Inr map_of_append_new
        table_contains_def
      split: if_splits prod.splits option.splits)

lemma is_subscribed_internal_registered:
  assumes "subscriptions registry' =
           (case map_of (subscriptions registry) sid of
              Some space_subs \<Rightarrow>
                table_write (subscriptions registry) sid (space_subs @ [(who, uid)])
            | None \<Rightarrow>
                table_write (subscriptions registry @ [(sid, [])]) sid [(who, uid)])"
  shows "is_subscribed_internal registry' a s \<longleftrightarrow>
           is_subscribed_internal registry a s \<or> (a = who \<and> s = sid)"
proof (cases "map_of (subscriptions registry) sid")
  case None
  then have nc: "\<not> table_contains (subscriptions registry) sid"
    by (simp add: table_contains_def)
  from None assms have "subscriptions registry' =
      table_write (subscriptions registry @ [(sid, [])]) sid [(who, uid)]"
    by simp
  with nc None show ?thesis
    by (auto simp: is_subscribed_internal_def map_of_table_write map_of_append_new
          table_contains_def [of "[(who, uid)]"] table_contains_def [of "[]"]
        split: option.splits)
next
  case (Some space_subs)
  then have c: "table_contains (subscriptions registry) sid"
    by (simp add: table_contains_def)
  from Some assms have "subscriptions registry' =
      table_write (subscriptions registry) sid (space_subs @ [(who, uid)])"
    by simp
  with c Some show ?thesis
    by (auto simp: is_subscribed_internal_def map_of_table_write split: option.splits)
qed


lemma add_fan_avatar_total:
  "\<exists>fan_registry' ctx'. add_fan_avatar fan_registry space fan_address avatar ctx
     = Inr (fan_registry', [FanAvatarAdded (space_uid space) fan_address avatar], ctx')"
proof (cases "map_of (fans fan_registry) (space_uid space)")
  case None
  then have "\<not> table_contains (fans fan_registry) (space_uid space)"
    by (rule table_contains_None)
  then show ?thesis
    by (simp add: add_fan_avatar_def Let_def table_new_def table_add_new
          table_borrow_append_new)
next
  case (Some space_fans)
  then have c: "table_contains (fans fan_registry) (space_uid space)"
    by (rule table_contains_Some)
  note b = table_borrow_Some [OF Some]
  show ?thesis
  proof (cases "map_of space_fans fan_address")
    case None
    then have "\<not> table_contains space_fans fan_address"
      by (rule table_contains_None)
    with c b show ?thesis
      by (simp add: add_fan_avatar_def Let_def table_add_new)
  next
    case (Some old)
    then have "table_contains space_fans fan_address"
      by (rule table_contains_Some)
    with c b table_remove_Some [OF Some] show ?thesis
      by (simp add: add_fan_avatar_def Let_def table_add_new)
  qed
qed

lemma unat_ONE_DAY_MS [simp]: "unat ONE_DAY_MS = 86400000"
  by (simp add: ONE_DAY_MS_def)

lemma unat_mul_no_overflow:
  "unat (a :: u64) * unat b < 2 ^ 64 \<Longrightarrow> unat (a * b) = unat a * unat b"
  by (simp add: unat_word_ariths)

lemma unat_add_no_overflow:
  "unat (a :: u64) + unat b < 2 ^ 64 \<Longrightarrow> unat (a + b) = unat a + unat b"
  by (simp add: unat_word_ariths)

lemma subscribe_succeeds:
  assumes own: "owner identity' = sender ctx"
    and av: "avatar_blob_id identity' = Some avatar"
    and fresh: "\<not> is_subscribed_internal registry (sender ctx) (space_uid space)"
    and pay: "unat (subscription_price space) * unat days \<le> unat (coin_value payment)"
    and exp: "unat (timestamp_ms clock) + unat days * 86400000 < 2 ^ 64"
    and tot: "unat (total_subscriptions registry) + 1 < 2 ^ 64"
    and act: "unat (active_subscriptions registry) + 1 < 2 ^ 64"
  shows "\<exists>sub paid change registry' fan_registry' events ctx'.
           subscribe registry fan_registry space identity' payment days clock ctx
             = Inr (sub, paid, change, registry', fan_registry', events, ctx')"
proof -
  have lt: "unat (coin_value payment) < 2 ^ 64"
    using unsigned_less [of "coin_value payment"] by simp
  with pay have no: "unat (subscription_price space) * unat days < 2 ^ 64"
    by linarith
  then have m: "mul_u64 (subscription_price space) days = Inr (subscription_price space * days)"
    by (simp add: mul_u64_def)
  from no pay have le: "subscription_price space * days \<le> coin_value payment"
    by (simp add: word_le_nat_alt unat_mul_no_overflow)
  from exp have d: "unat days * unat ONE_DAY_MS < 2 ^ 64"
    by simp
  then have md: "mul_u64 days ONE_DAY_MS = Inr (days * ONE_DAY_MS)"
    by (simp add: mul_u64_def)
  from exp d have "unat (timestamp_ms clock) + unat (days * ONE_DAY_MS) < 2 ^ 64"
    by (simp add: unat_mul_no_overflow)
  then have ad: "add_u64 (timestamp_ms clock) (days * ONE_DAY_MS)
                   = Inr (timestamp_ms clock + days * ONE_DAY_MS)"
    by (simp add: add_u64_def)
  from tot have a1: "add_u64 (total_subscriptions registry) 1
                       = Inr (total_subscriptions registry + 1)"
    by (simp add: add_u64_def)
  from act have a2: "add_u64 (active_subscriptions registry) 1
                       = Inr (active_subscriptions registry + 1)"
    by (simp add: add_u64_def)
  obtain fr c where fan: "add_fan_avatar fan_registry space (sender ctx) avatar
      (snd (object_new (snd (object_new ctx))))
      = Inr (fr, [FanAvatarAdded (space_uid space) (sender ctx) avatar], c)"
    using add_fan_avatar_total by blast
  obtain fr' c' where fan': "add_fan_avatar fan_registry space (sender ctx) avatar
      (snd (object_new (snd (object_new (snd (object_new ctx))))))
      = Inr (fr', [FanAvatarAdded (space_uid space) (sender ctx) avatar], c')"
    using add_fan_avatar_total by blast
  show ?thesis
  proof (cases "map_of (subscriptions registry) (space_uid space)")
    case None
    then have nc: "\<not> table_contains (subscriptions registry) (space_uid space)"
      by (rule table_contains_None)
    with own av m le md ad a1 a2 fan' show ?thesis
      by (simp add: subscribe_def Let_def is_subscribed_internal_def
            coin_split_def table_new_def table_add_new table_borrow_append_new
            split_beta linorder_not_less)
  next
    case (Some space_subs)
    then have c: "table_contains (subscriptions registry) (space_uid space)"
      by (rule table_contains_Some)
    with fresh Some have "\<not> table_contains space_subs (sender ctx)"
      by (simp add: is_subscribed_internal_def)
    with c own av m le md ad a1 a2 fan table_borrow_Some [OF Some] Some show ?thesis
      by (simp add: subscribe_def Let_def is_subscribed_internal_def
            coin_split_def table_add_new split_beta linorder_not_less)
  qed
qed

subsection \<open>How \<open>subscribe\<close> aborts\<close>

lemma subscribe_late_abort:
  assumes own: "owner identity' = sender ctx"
    and av: "avatar_blob_id identity' = Some avatar"
    and fresh: "\<not> is_subscribed_internal registry (sender ctx) (space_uid space)"
    and pay: "unat (subscription_price space) * unat days \<le> unat (coin_value payment)"
    and over: "\<not> (unat (timestamp_ms clock) + unat days * 86400000 < 2 ^ 64 \<and>
                  unat (total_subscriptions registry) + 1 < 2 ^ 64 \<and>
                  unat (active_subscriptions registry) + 1 < 2 ^ 64)"
  shows "subscribe registry fan_registry space identity' payment days clock ctx
           = Inl ArithmeticError"
proof -
  have lt: "unat (coin_value payment) < 2 ^ 64"
    using unsigned_less [of "coin_value payment"] by simp
  with pay have no: "unat (subscription_price space) * unat days < 2 ^ 64"
    by linarith
  then have m: "mul_u64 (subscription_price space) days = Inr (subscription_price space * days)"
    by (simp add: mul_u64_def)
  from no pay have le: "subscription_price space * days \<le> coin_value payment"
    by (simp add: word_le_nat_alt unat_mul_no_overflow)
  note start = own av fresh m le
  show ?thesis
  proof (cases "unat days * unat ONE_DAY_MS < 2 ^ 64")
    case False
    then have "mul_u64 days ONE_DAY_MS = Inl ArithmeticError"
      by (simp add: mul_u64_def)
    with start show ?thesis
      by (simp add: subscribe_def Let_def coin_split_def split_beta linorder_not_less)
  next
    case d: True
    then have md: "mul_u64 days ONE_DAY_MS = Inr (days * ONE_DAY_MS)"
      by (simp add: mul_u64_def)
    show ?thesis
    proof (cases "unat (timestamp_ms clock) + unat days * 86400000 < 2 ^ 64")
      case False
      with d have "add_u64 (timestamp_ms clock) (days * ONE_DAY_MS) = Inl ArithmeticError"
        by (simp add: add_u64_def unat_mul_no_overflow)
      with start md show ?thesis
        by (simp add: subscribe_def Let_def coin_split_def split_beta linorder_not_less)
    next
      case True
      with d have ad: "add_u64 (timestamp_ms clock) (days * ONE_DAY_MS)
                   = Inr (timestamp_ms clock + days * ONE_DAY_MS)"
        by (simp add: add_u64_def unat_mul_no_overflow)
      from True over have counters:
        "add_u64 (total_subscriptions registry) 1 = Inl ArithmeticError \<or>
         (add_u64 (total_subscriptions registry) 1 = Inr (total_subscriptions registry + 1) \<and>
          add_u64 (active_subscriptions registry) 1 = Inl ArithmeticError)"
        by (auto simp: add_u64_def)
      show ?thesis
      proof (cases "map_of (subscriptions registry) (space_uid space)")
        case None
        then have nc: "\<not> table_contains (subscriptions registry) (space_uid space)"
          by (rule table_contains_None)
        with start md ad counters show ?thesis
          by (auto simp: subscribe_def Let_def coin_split_def table_new_def table_add_new
                table_borrow_append_new split_beta linorder_not_less)
      next
        case (Some space_subs)
        then have c: "table_contains (subscriptions registry) (space_uid space)"
          by (rule table_contains_Some)
        with fresh Some have "\<not> table_contains space_subs (sender ctx)"
          by (simp add: is_subscribed_internal_def)
        with c start md ad counters table_borrow_Some [OF Some] show ?thesis
          by (auto simp: subscribe_def Let_def coin_split_def table_add_new split_beta
                linorder_not_less)
      qed
    qed
  qed
qed

lemma subscribe_abort_code:
  assumes "subscribe registry fan_registry space identity' payment days clock ctx = Inl e"
  shows "e = (if owner identity' \<noteq> sender ctx then Subscription_ENoIdentity
              else if avatar_blob_id identity' = None then Subscription_ENoAvatar
              else if is_subscribed_internal registry (sender ctx) (space_uid space)
                then Subscription_EAlreadySubscribed
              else if \<not> unat (subscription_price space) * unat days < 2 ^ 64
                then ArithmeticError
              else if coin_value payment < subscription_price space * days
                then Subscription_EInsufficientPayment
              else ArithmeticError)"
proof (cases "owner identity' = sender ctx \<and> avatar_blob_id identity' \<noteq> None \<and>
    \<not> is_subscribed_internal registry (sender ctx) (space_uid space) \<and>
    unat (subscription_price space) * unat days < 2 ^ 64 \<and>
    \<not> coin_value payment < subscription_price space * days")
  case False
  with assms show ?thesis
    by (auto simp: subscribe_def Let_def mul_u64_def split: if_splits)
next
  case True
  then obtain avatar where av: "avatar_blob_id identity' = Some avatar"
    by blast
  from True have "unat (subscription_price space) * unat days < 2 ^ 64"
    by simp
  then have "unat (subscription_price space * days) = unat (subscription_price space) * unat days"
    by (rule unat_mul_no_overflow)
  with True have pay: "unat (subscription_price space) * unat days \<le> unat (coin_value payment)"
    by (simp add: word_less_nat_alt)
  have "e = ArithmeticError"
  proof (cases "unat (timestamp_ms clock) + unat days * 86400000 < 2 ^ 64 \<and>
                  unat (total_subscriptions registry) + 1 < 2 ^ 64 \<and>
                  unat (active_subscriptions registry) + 1 < 2 ^ 64")
    case False
    have "subscribe registry fan_registry space identity' payment days clock ctx
            = Inl ArithmeticError"
      using True av pay False by (intro subscribe_late_abort) simp_all
    with assms show ?thesis by simp
  next
    case ok: True
    have "\<exists>sub paid change registry' fan_registry' events ctx'.
            subscribe registry fan_registry space identity' payment days clock ctx
              = Inr (sub, paid, change, registry', fan_registry', events, ctx')"
      using True av pay ok by (intro subscribe_succeeds) simp_all
    with assms show ?thesis by auto
  qed
  with True show ?thesis by simp
qed

subsection \<open>The pairs a reachable subscription registry holds\<close>

lemma create_creator_subscription_InrD:
  assumes "create_creator_subscription registry space creator' clock ctx
             = Inr (sub, registry', events, ctx')"
  shows "subscriptions registry' =
           (case map_of (subscriptions registry) (space_uid space) of
              Some space_subs \<Rightarrow>
                table_write (subscriptions registry) (space_uid space)
                  (space_subs @ [(creator', ObjID (tx_hash ctx) (ids_created ctx))])
            | None \<Rightarrow>
                table_write (subscriptions registry @ [(space_uid space, [])]) (space_uid space)
                  [(creator', ObjID (tx_hash ctx) (ids_created ctx))])"
  using assms unfolding create_creator_subscription_def Let_def
  by (auto simp: bindE_eq_Inr add_u64_eq_Inr object_new_def
        table_new_def table_add_eq_Inr table_borrow_eq_Inr map_of_append_new
        table_contains_def
      split: if_splits prod.splits option.splits)

lemma renew_subscription_registry:
  assumes "renew_subscription registry subscription payment space additional_days clock ctx
             = Inr (paid, change, registry', subscription', events, ctx')"
  shows "registry' = registry"
  using assms unfolding renew_subscription_def Let_def
  by (auto simp: bindE_eq_Inr split: if_splits prod.splits)

lemma subscription_init_empty:
  "\<not> is_subscribed_internal (fst (subscription_init ctx)) a s"
  by (simp add: is_subscribed_internal_def subscription_init_def table_new_def object_new_def)

lemma reachable_subscription_registry_pairs:
  "reachable_subscription_registry pairs registry \<Longrightarrow>
   is_subscribed_internal registry a s \<Longrightarrow> (s, a) \<in> set pairs"
proof (induction rule: reachable_subscription_registry.induct)
  case (reach_sub_init ctx)
  then show ?case
    by (simp add: subscription_init_empty)
next
  case (reach_subscribe pairs registry fan_registry space identity' payment duration_days'
      clock ctx subscription payment_amount payment' registry' fan_registry' events ctx')
  from is_subscribed_internal_registered [OF subscribe_InrD(13) [OF reach_subscribe.hyps(2)]]
    reach_subscribe.prems reach_subscribe.IH
  show ?case
    by auto
next
  case (reach_creator_subscription pairs registry space creator' clock ctx subscription
      registry' events ctx')
  from is_subscribed_internal_registered
         [OF create_creator_subscription_InrD [OF reach_creator_subscription.hyps(2)]]
    reach_creator_subscription.prems reach_creator_subscription.IH
  show ?case
    by auto
next
  case (reach_renew pairs registry subscription payment space additional_days clock ctx
      payment_amount payment' registry' subscription' events ctx')
  from renew_subscription_registry [OF reach_renew.hyps(2)] reach_renew.prems reach_renew.IH
  show ?case
    by simp
qed

subsection \<open>When \<open>renew_subscription\<close> succeeds and what it returns\<close>

lemma renew_subscription_InrD:
  assumes "renew_subscription registry subscription payment space days clock ctx
             = Inr (paid, change, registry', subscription', events, ctx')"
  shows "subscriber subscription = sender ctx"
    and "unat (subscription_price space) * unat days < 2 ^ 64"
    and "subscription_price space * days \<le> coin_value payment"
    and "coin_value paid = subscription_price space * days"
    and "coin_value change = coin_value payment - subscription_price space * days"
    and "unat days * unat ONE_DAY_MS < 2 ^ 64"
    and "unat (if expires_at subscription < timestamp_ms clock then timestamp_ms clock
               else expires_at subscription) + unat (days * ONE_DAY_MS) < 2 ^ 64"
    and "subscription' = subscription
           \<lparr>expires_at := (if expires_at subscription < timestamp_ms clock
                            then timestamp_ms clock else expires_at subscription)
                           + days * ONE_DAY_MS,
            duration_days := duration_days subscription + days\<rparr>"
    and "unat (duration_days subscription) + unat days < 2 ^ 64"
    and "registry' = registry"
  using assms unfolding renew_subscription_def Let_def
  by (auto simp: bindE_eq_Inr mul_u64_eq_Inr add_u64_eq_Inr coin_split_def object_new_def
      split: if_splits prod.splits)

lemma renew_subscription_succeeds:
  assumes own: "subscriber subscription = sender ctx"
    and pay: "unat (subscription_price space) * unat days \<le> unat (coin_value payment)"
    and exp: "unat (if expires_at subscription < timestamp_ms clock then timestamp_ms clock
                    else expires_at subscription) + unat days * 86400000 < 2 ^ 64"
    and dur: "unat (duration_days subscription) + unat days < 2 ^ 64"
  shows "renew_subscription registry subscription payment space days clock ctx
     = Inr (\<lparr>coin_uid = ObjID (tx_hash ctx) (ids_created ctx),
              coin_value = subscription_price space * days\<rparr>,
            payment\<lparr>coin_value := coin_value payment - subscription_price space * days\<rparr>,
            registry,
            subscription
              \<lparr>expires_at := (if expires_at subscription < timestamp_ms clock
                               then timestamp_ms clock else expires_at subscription)
                              + days * ONE_DAY_MS,
               duration_days := duration_days subscription + days\<rparr>,
            [SubscriptionRenewed (subscription_uid subscription)
               ((if expires_at subscription < timestamp_ms clock
                 then timestamp_ms clock else expires_at subscription) + days * ONE_DAY_MS)
               (subscription_price space * days)],
            ctx\<lparr>ids_created := ids_created ctx + 1\<rparr>)"
proof -
  have lt: "unat (coin_value payment) < 2 ^ 64"
    using unsigned_less [of "coin_value payment"] by simp
  with pay have no: "unat (subscription_price space) * unat days < 2 ^ 64"
    by linarith
  then have m: "mul_u64 (subscription_price space) days = Inr (subscription_price space * days)"
    by (simp add: mul_u64_def)
  from no pay have le: "subscription_price space * days \<le> coin_value payment"
    by (simp add: word_le_nat_alt unat_mul_no_overflow)
  from exp have d: "unat days * unat ONE_DAY_MS < 2 ^ 64"
    by simp
  then have md: "mul_u64 days ONE_DAY_MS = Inr (days * ONE_DAY_MS)"
    by (simp add: mul_u64_def)
  from d have ud: "unat (days * ONE_DAY_MS) = unat days * 86400000"
    by (simp add: unat_mul_no_overflow)
  from dur have a: "add_u64 (duration_days subscription) days
                      = Inr (duration_days subscription + days)"
    by (simp add: add_u64_def)
  show ?thesis
  proof (cases "expires_at subscription < timestamp_ms clock")
    case True
    with exp ud have "add_u64 (timestamp_ms clock) (days * ONE_DAY_MS)
                        = Inr (timestamp_ms clock + days * ONE_DAY_MS)"
      by (simp add: add_u64_def)
    with True own m le md a show ?thesis
      by (simp add: renew_subscription_def Let_def coin_split_def object_new_def
            word_less_nat_alt word_le_nat_alt)
  next
    case False
    with exp ud have "add_u64 (expires_at subscription) (days * ONE_DAY_MS)
                        = Inr (expires_at subscription + days * ONE_DAY_MS)"
      by (simp add: add_u64_def)
    with False own m le md a show ?thesis
      by (simp add: renew_subscription_def Let_def coin_split_def object_new_def
            word_less_nat_alt word_le_nat_alt)
  qed
qed

lemma renew_subscription_overflow:
  assumes own: "subscriber subscription = sender ctx"
    and pay: "unat (subscription_price space) * unat days \<le> unat (coin_value payment)"
    and over: "\<not> (unat (if expires_at subscription < timestamp_ms clock
                           then timestamp_ms clock else expires_at subscription)
                     + unat days * 86400000 < 2 ^ 64 \<and>
                  unat (duration_days subscription) + unat days < 2 ^ 64)"
  shows "renew_subscription registry subscription payment space days clock ctx
           = Inl ArithmeticError"
proof (cases "renew_subscription registry subscription payment space days clock ctx")
  case (Inr r)
  obtain paid change registry' subscription' events ctx'
    where "r = (paid, change, registry', subscription', events, ctx')"
    by (cases r) auto
  with Inr have ok: "renew_subscription registry subscription payment space days clock ctx
      = Inr (paid, change, registry', subscription', events, ctx')"
    by simp
  from renew_subscription_InrD(6) [OF ok]
  have "unat (days * ONE_DAY_MS) = unat days * 86400000"
    by (simp add: unat_mul_no_overflow)
  with renew_subscription_InrD(7) [OF ok] renew_subscription_InrD(9) [OF ok] over
  show ?thesis by simp
next
  case (Inl e)
  have lt: "unat (coin_value payment) < 2 ^ 64"
    using unsigned_less [of "coin_value payment"] by simp
  with pay have no: "unat (subscription_price space) * unat days < 2 ^ 64"
    by linarith
  from no pay have le: "subscription_price space * days \<le> coin_value payment"
    by (simp add: word_le_nat_alt unat_mul_no_overflow)
  from Inl own no le have "e = ArithmeticError"
    by (auto simp: renew_subscription_def Let_def mul_u64_def add_u64_def coin_split_def
          object_new_def bindE_def linorder_not_less
        split: if_splits sum.splits)
  with Inl show ?thesis by simp
qed

subsection \<open>Scenario runs\<close>

lemmas eval_defs = subscribe_def Let_def is_subscribed_internal_def table_contains_def
  coin_split_def table_new_def table_add_def table_borrow_def table_write_def table_remove_def
  object_new_def mul_u64_def add_u64_def add_fan_avatar_def ONE_DAY_MS_def
  empty_subscription_registry_def empty_fan_registry_def subscription_init_def space_init_def
  genesis_ctx_def fan_ctx_def space_A_def fan_with_avatar_def fan_identity_def

lemma subscribe_scenario:
  "subscribe empty_subscription_registry empty_fan_registry space_A fan_with_avatar
         \<lparr>coin_uid = ObjID 5 0, coin_value = 700\<rparr> 5 \<lparr>timestamp_ms = 5000\<rparr> fan_ctx
   = Inr (sub_A, \<lparr>coin_uid = ObjID 7 0, coin_value = 500\<rparr>,
          \<lparr>coin_uid = ObjID 5 0, coin_value = 200\<rparr>,
          \<lparr>subscription_registry_uid = ObjID 0 0,
             subscriptions = [(ObjID 1 0, [(20, ObjID 7 1)])],
             total_subscriptions = 1, active_subscriptions = 1\<rparr>,
          \<lparr>fan_registry_uid = ObjID 0 1,
             fans = [(ObjID 1 0, [(20, \<lparr>fan_owner = 20, fan_avatar_blob_id = ''glb''\<rparr>)])]\<rparr>,
          [FanAvatarAdded (ObjID 1 0) 20 ''glb'',
           SubscriptionCreated (ObjID 7 1) (ObjID 1 0) 20 432005000 500],
          \<lparr>sender = 20, tx_hash = 7, ids_created = 4\<rparr>)"
  by (simp add: eval_defs sub_A_def)

lemma mint_identity_scenario:
  "mint_identity empty_identity_registry ''fan'' ''hello'' [] ''img''
     \<lparr>timestamp_ms = 100\<rparr> fan_ctx
   = Inr (fan_identity,
          \<lparr>identity_registry_uid = ObjID 0 0, identities = [(20, ObjID 7 0)],
             total_identities = 1, total_creators = 0\<rparr>,
          [IdentityMinted (ObjID 7 0) 20 ''fan'' 100],
          \<lparr>sender = 20, tx_hash = 7, ids_created = 1\<rparr>)"
  by (simp add: mint_identity_def Let_def empty_identity_registry_def identity_init_def
        genesis_ctx_def fan_ctx_def fan_identity_def object_new_def table_new_def
        table_contains_def table_add_def add_u64_def)

lemma create_creator_subscription_scenario:
  "create_creator_subscription empty_subscription_registry space_A 10
     \<lparr>timestamp_ms = 1000\<rparr> creator_ctx
   = Inr (creator_sub, creator_registered,
          [SubscriptionCreated (ObjID 3 0) (ObjID 1 0) 10 18446744073709551615 0],
          \<lparr>sender = 10, tx_hash = 3, ids_created = 2\<rparr>)"
  by (simp add: create_creator_subscription_def Let_def table_contains_def table_new_def
        table_add_def table_borrow_def table_write_def object_new_def add_u64_def
        empty_subscription_registry_def subscription_init_def genesis_ctx_def creator_ctx_def
        space_A_def creator_sub_def creator_registered_def)


section \<open>Verified properties\<close>

subsection \<open>The subscriber-path gate check\<close>

text \<open>
  Claim C2. \<open>seal_approve_as_subscriber\<close> returns without abort if and only if the
  subscription's subscriber is the transaction sender, its \<open>space_id\<close> is the id of the
  space passed, and it is not expired (\<open>expires_at < now\<close> is false); in every other case
  it aborts with \<open>ENotSubscriber\<close>. In particular a subscription of the sender that has
  not expired is refused against any space other than its own.
\<close>

theorem seal_approve_as_subscriber_iff:
  "(seal_approve_as_subscriber seal_id space subscription clock ctx = Inr () \<longleftrightarrow>
      subscriber subscription = sender ctx \<and> space_id subscription = space_uid space \<and>
      \<not> expires_at subscription < timestamp_ms clock) \<and>
   (\<not> (subscriber subscription = sender ctx \<and> space_id subscription = space_uid space \<and>
       \<not> is_expired subscription clock) \<longrightarrow>
      seal_approve_as_subscriber seal_id space subscription clock ctx
        = Inl Subscription_ENotSubscriber) \<and>
   (subscriber subscription = sender ctx \<and> \<not> is_expired subscription clock \<and>
      space_uid space \<noteq> space_id subscription \<longrightarrow>
      seal_approve_as_subscriber seal_id space subscription clock ctx
        = Inl Subscription_ENotSubscriber)"
  by (simp add: seal_approve_as_subscriber_def is_expired_def Let_def)

theorem seal_approve_as_subscriber_witness:
  "seal_approve_as_subscriber [] space_A sub_A \<lparr>timestamp_ms = 6000\<rparr> fan_ctx = Inr () \<and>
   subscriber sub_A = sender fan_ctx \<and> \<not> is_expired sub_A \<lparr>timestamp_ms = 6000\<rparr> \<and>
   space_uid space_B \<noteq> space_id sub_A \<and>
   seal_approve_as_subscriber [] space_B sub_A \<lparr>timestamp_ms = 6000\<rparr> fan_ctx
     = Inl Subscription_ENotSubscriber"
  using seal_approve_as_subscriber_iff
          [where seal_id = "[]" and space = space_A and subscription = sub_A
             and clock = "\<lparr>timestamp_ms = 6000\<rparr>" and ctx = fan_ctx]
        seal_approve_as_subscriber_iff
          [where seal_id = "[]" and space = space_B and subscription = sub_A
             and clock = "\<lparr>timestamp_ms = 6000\<rparr>" and ctx = fan_ctx]
  by (simp add: space_A_def space_B_def sub_A_def fan_ctx_def is_expired_def)

subsection \<open>The ownership capability\<close>

text \<open>
  Claim C5. Each operation guarded by a \<open>SpaceOwnership\<close> (\<open>update_space_config\<close>,
  \<open>add_video\<close>, \<open>record_content\<close> and the owner-path gate check
  \<open>seal_approve_as_creator\<close>) aborts with \<open>ENotOwner\<close> whenever the capability's
  \<open>space_id\<close> differs from the id of the space, whoever the sender is, and goes through
  when the two are equal.
\<close>

theorem ownership_guard:
  "(ownership_space_id ownership \<noteq> space_uid space \<longrightarrow>
      update_space_config space ownership new_name new_description new_cover_image
        new_config_quilt new_subscription_price clock = Inl Space_ENotOwner \<and>
      add_video space ownership video_blob_id clock = Inl Space_ENotOwner \<and>
      record_content space ownership blob_object_id blob_id content_type title description'
        encrypted price tags clock ctx = Inl Space_ENotOwner \<and>
      seal_approve_as_creator seal_id space ownership = Inl Subscription_ENotOwner) \<and>
   (ownership_space_id ownership = space_uid space \<longrightarrow>
      (\<exists>space' events. update_space_config space ownership new_name new_description
         new_cover_image new_config_quilt new_subscription_price clock
           = Inr (space', events)) \<and>
      add_video space ownership video_blob_id clock
        = Inr (space\<lparr>video_blob_ids := video_blob_ids space @ [video_blob_id],
                     updated_at := timestamp_ms clock\<rparr>) \<and>
      (\<exists>events. record_content space ownership blob_object_id blob_id content_type title
         description' encrypted price tags clock ctx = Inr events) \<and>
      seal_approve_as_creator seal_id space ownership = Inr ())"
  by (simp add: update_space_config_def add_video_def record_content_def
        seal_approve_as_creator_def get_space_ownership_space_id_def Let_def)

theorem ownership_guard_witness:
  "ownership_space_id \<lparr>ownership_uid = ObjID 1 2, ownership_space_id = ObjID 1 0\<rparr>
     \<noteq> space_uid space_B \<and>
   add_video space_B \<lparr>ownership_uid = ObjID 1 2, ownership_space_id = ObjID 1 0\<rparr> ''v''
     \<lparr>timestamp_ms = 6000\<rparr> = Inl Space_ENotOwner \<and>
   seal_approve_as_creator [] space_B
     \<lparr>ownership_uid = ObjID 1 2, ownership_space_id = ObjID 1 0\<rparr>
     = Inl Subscription_ENotOwner \<and>
   ownership_space_id \<lparr>ownership_uid = ObjID 1 2, ownership_space_id = ObjID 1 0\<rparr>
     = space_uid space_A \<and>
   add_video space_A \<lparr>ownership_uid = ObjID 1 2, ownership_space_id = ObjID 1 0\<rparr> ''v''
     \<lparr>timestamp_ms = 6000\<rparr>
     = Inr (space_A\<lparr>video_blob_ids := [''v''], updated_at := 6000\<rparr>) \<and>
   seal_approve_as_creator [] space_A
     \<lparr>ownership_uid = ObjID 1 2, ownership_space_id = ObjID 1 0\<rparr> = Inr ()"
  using ownership_guard
          [where ownership = "\<lparr>ownership_uid = ObjID 1 2, ownership_space_id = ObjID 1 0\<rparr>"
             and space = space_B and video_blob_id = "''v''"
             and clock = "\<lparr>timestamp_ms = 6000\<rparr>" and seal_id = "[]"]
        ownership_guard
          [where ownership = "\<lparr>ownership_uid = ObjID 1 2, ownership_space_id = ObjID 1 0\<rparr>"
             and space = space_A and video_blob_id = "''v''"
             and clock = "\<lparr>timestamp_ms = 6000\<rparr>" and seal_id = "[]"]
  by (simp add: space_A_def space_B_def)

subsection \<open>One identity per principal\<close>


lemma mint_identity_registered:
  assumes "mint_identity registry u b a i clock ctx = Inr (identity', registry', events, ctx')"
  shows "\<not> table_contains (identities registry) (sender ctx)"
    and "identities registry' = identities registry @ [(sender ctx, identity_uid identity')]"
  using assms
  by (auto simp: mint_identity_def Let_def object_new_def bindE_eq_Inr table_add_eq_Inr
           split: if_splits)

lemma reachable_identity_registry_distinct:
  "reachable_identity_registry registry \<Longrightarrow> distinct (map fst (identities registry))"
proof (induction rule: reachable_identity_registry.induct)
  case (reach_init ctx)
  show ?case
    by (simp add: identity_init_def table_new_def object_new_def)
next
  case (reach_mint registry u b a i clock ctx identity' registry' events ctx')
  from mint_identity_registered [OF reach_mint.hyps(2)] reach_mint.IH
  show ?case
    by (simp add: table_contains_iff)
next
  case (reach_creator registry registry')
  then show ?case
    by (auto simp: increment_creator_count_def bindE_eq_Inr)
qed

text \<open>
  Claim C6. When the identity registry already has an entry for the sender,
  \<open>mint_identity\<close> aborts with \<open>EIdentityAlreadyExists\<close> and the registry is unchanged;
  after a successful registration every further registration by the same sender aborts so;
  and in every reachable registry no principal is the key of two entries.
\<close>

theorem mint_identity_at_most_once:
  "(table_contains (identities registry) (sender ctx) \<longrightarrow>
      mint_identity registry username' bio' avatar_blob_id' image_blob_id' clock ctx
        = Inl Identity_EIdentityAlreadyExists \<and>
      mint_identity_tx registry username' bio' avatar_blob_id' image_blob_id' clock ctx
        = registry) \<and>
   (mint_identity registry username' bio' avatar_blob_id' image_blob_id' clock ctx
        = Inr (identity', registry', events, ctx') \<and> sender ctx2 = sender ctx \<longrightarrow>
      mint_identity registry' username2 bio2 avatar_blob_id2 image_blob_id2 clock2 ctx2
        = Inl Identity_EIdentityAlreadyExists) \<and>
   (reachable_identity_registry registry \<longrightarrow> distinct (map fst (identities registry)))"
proof (intro conjI impI)
  assume "table_contains (identities registry) (sender ctx)"
  then show "mint_identity registry username' bio' avatar_blob_id' image_blob_id' clock ctx
        = Inl Identity_EIdentityAlreadyExists"
    by (simp add: mint_identity_def)
  then show "mint_identity_tx registry username' bio' avatar_blob_id' image_blob_id' clock ctx
        = registry"
    by (simp add: mint_identity_tx_def)
next
  assume h: "mint_identity registry username' bio' avatar_blob_id' image_blob_id' clock ctx
        = Inr (identity', registry', events, ctx') \<and> sender ctx2 = sender ctx"
  then have "table_contains (identities registry') (sender ctx2)"
    using mint_identity_registered(2) [of registry username' bio' avatar_blob_id'
            image_blob_id' clock ctx identity' registry' events ctx']
    by simp
  then show "mint_identity registry' username2 bio2 avatar_blob_id2 image_blob_id2 clock2 ctx2
        = Inl Identity_EIdentityAlreadyExists"
    by (simp add: mint_identity_def)
next
  assume "reachable_identity_registry registry"
  then show "distinct (map fst (identities registry))"
    by (rule reachable_identity_registry_distinct)
qed

theorem mint_identity_at_most_once_witness:
  "mint_identity empty_identity_registry ''fan'' ''hello'' [] ''img''
     \<lparr>timestamp_ms = 100\<rparr> fan_ctx
   = Inr (fan_identity,
          \<lparr>identity_registry_uid = ObjID 0 0, identities = [(20, ObjID 7 0)],
             total_identities = 1, total_creators = 0\<rparr>,
          [IdentityMinted (ObjID 7 0) 20 ''fan'' 100],
          \<lparr>sender = 20, tx_hash = 7, ids_created = 1\<rparr>) \<and>
   sender \<lparr>sender = 20, tx_hash = 8, ids_created = 0\<rparr> = sender fan_ctx \<and>
   mint_identity \<lparr>identity_registry_uid = ObjID 0 0, identities = [(20, ObjID 7 0)],
                   total_identities = 1, total_creators = 0\<rparr>
     ''other'' ''text'' [] ''img3'' \<lparr>timestamp_ms = 300\<rparr>
     \<lparr>sender = 20, tx_hash = 8, ids_created = 0\<rparr>
     = Inl Identity_EIdentityAlreadyExists \<and>
   table_contains
     (identities \<lparr>identity_registry_uid = ObjID 0 0, identities = [(20, ObjID 7 0)],
                   total_identities = 1, total_creators = 0\<rparr>) (sender fan_ctx) \<and>
   mint_identity \<lparr>identity_registry_uid = ObjID 0 0, identities = [(20, ObjID 7 0)],
                   total_identities = 1, total_creators = 0\<rparr>
     ''again'' ''bio'' ''glb'' ''img2'' \<lparr>timestamp_ms = 200\<rparr> fan_ctx
     = Inl Identity_EIdentityAlreadyExists \<and>
   mint_identity_tx \<lparr>identity_registry_uid = ObjID 0 0, identities = [(20, ObjID 7 0)],
                      total_identities = 1, total_creators = 0\<rparr>
     ''again'' ''bio'' ''glb'' ''img2'' \<lparr>timestamp_ms = 200\<rparr> fan_ctx
     = \<lparr>identity_registry_uid = ObjID 0 0, identities = [(20, ObjID 7 0)],
         total_identities = 1, total_creators = 0\<rparr> \<and>
   reachable_identity_registry
     \<lparr>identity_registry_uid = ObjID 0 0, identities = [(20, ObjID 7 0)],
        total_identities = 1, total_creators = 0\<rparr> \<and>
   distinct (map fst (identities
     \<lparr>identity_registry_uid = ObjID 0 0, identities = [(20, ObjID 7 0)],
        total_identities = 1, total_creators = 0\<rparr>))"
proof -
  let ?r = "\<lparr>identity_registry_uid = ObjID 0 0, identities = [(20, ObjID 7 0)],
              total_identities = 1, total_creators = 0\<rparr>"
  note first = mint_identity_scenario
  have same: "sender \<lparr>sender = 20, tx_hash = 8, ids_created = 0\<rparr> = sender fan_ctx"
    by (simp add: fan_ctx_def)
  from first same
  have again: "mint_identity ?r ''other'' ''text'' [] ''img3'' \<lparr>timestamp_ms = 300\<rparr>
     \<lparr>sender = 20, tx_hash = 8, ids_created = 0\<rparr> = Inl Identity_EIdentityAlreadyExists"
    by (intro mint_identity_at_most_once [THEN conjunct2, THEN conjunct1, THEN mp]) blast
  have c: "table_contains (identities ?r) (sender fan_ctx)"
    by (simp add: table_contains_def fan_ctx_def)
  have "reachable_identity_registry empty_identity_registry"
    unfolding empty_identity_registry_def by (rule reach_init)
  then have r: "reachable_identity_registry ?r"
    using first by (rule reach_mint)
  from first same again c r mint_identity_at_most_once
         [where registry = ?r and ctx = fan_ctx and username' = "''again''" and bio' = "''bio''"
            and avatar_blob_id' = "''glb''" and image_blob_id' = "''img2''"
            and clock = "\<lparr>timestamp_ms = 200\<rparr>"]
  show ?thesis
    by blast
qed

subsection \<open>Price, change and expiry of a new subscription\<close>

text \<open>
  Claim C3. Whenever \<open>subscribe\<close> succeeds, the coin split off has the value
  \<open>subscription_price \<times> duration_days\<close> (the product of the numbers, which fits in 64
  bits), the coin handed back holds the payment less that price, and the subscription expires
  at \<open>now + duration_days \<times> ONE_DAY_MS\<close>. At a price of 100 for 5 days, a payment of
  500 leaves change 0 and a payment of 700 leaves change 200. Zero days are accepted: the call
  goes through whatever the payment, takes nothing and sets \<open>expires_at\<close> to \<open>now\<close>.
\<close>

theorem subscribe_price_and_expiry:
  "(subscribe registry fan_registry space identity' payment days clock ctx
     = Inr (sub, paid, change, registry', fan_registry', events, ctx') \<longrightarrow>
   unat (coin_value paid) = unat (subscription_price space) * unat days \<and>
   unat (coin_value paid) \<le> unat (coin_value payment) \<and>
   unat (coin_value change) = unat (coin_value payment) - unat (coin_value paid) \<and>
   unat (expires_at sub) = unat (timestamp_ms clock) + unat days * unat ONE_DAY_MS \<and>
   (subscription_price space = 100 \<and> days = 5 \<and> coin_value payment = 500 \<longrightarrow>
      coin_value change = 0 \<and> expires_at sub = timestamp_ms clock + 5 * ONE_DAY_MS) \<and>
   (subscription_price space = 100 \<and> days = 5 \<and> coin_value payment = 700 \<longrightarrow>
      coin_value change = 200 \<and> expires_at sub = timestamp_ms clock + 5 * ONE_DAY_MS) \<and>
   (days = 0 \<longrightarrow>
      coin_value paid = 0 \<and> coin_value change = coin_value payment \<and>
      expires_at sub = timestamp_ms clock)) \<and>
   (owner identity' = sender ctx \<and> avatar_blob_id identity' \<noteq> None \<and>
    \<not> is_subscribed_internal registry (sender ctx) (space_uid space) \<and>
    unat (total_subscriptions registry) + 1 < 2 ^ 64 \<and>
    unat (active_subscriptions registry) + 1 < 2 ^ 64 \<longrightarrow>
      (\<exists>sub0 paid0 change0 registry0 fan_registry0 events0 ctx0.
         subscribe registry fan_registry space identity' payment 0 clock ctx
           = Inr (sub0, paid0, change0, registry0, fan_registry0, events0, ctx0)))"
proof (rule conjI; rule impI)
  assume ok: "subscribe registry fan_registry space identity' payment days clock ctx
     = Inr (sub, paid, change, registry', fan_registry', events, ctx')"
  note d = subscribe_InrD [OF ok]
  have paid: "unat (coin_value paid) = unat (subscription_price space) * unat days"
    using d(4,6) by (simp add: unat_mul_no_overflow)
  have le: "unat (coin_value paid) \<le> unat (coin_value payment)"
    using d(5,6) by (simp add: word_le_nat_alt)
  have change: "unat (coin_value change) = unat (coin_value payment) - unat (coin_value paid)"
    using d(5,6,7) by (simp add: unat_sub)
  have "unat (expires_at sub) = unat (timestamp_ms clock) + unat (days * ONE_DAY_MS)"
    using d(9,10) by (simp add: unat_add_no_overflow)
  then have expires: "unat (expires_at sub) = unat (timestamp_ms clock) + unat days * unat ONE_DAY_MS"
    using d(8) by (simp add: unat_mul_no_overflow)
  have e5: "days = 5 \<Longrightarrow> expires_at sub = timestamp_ms clock + 5 * ONE_DAY_MS"
    using d(10) by simp
  have c500: "subscription_price space = 100 \<and> days = 5 \<and> coin_value payment = 500 \<Longrightarrow>
      coin_value change = 0"
    using d(7) by simp
  have c700: "subscription_price space = 100 \<and> days = 5 \<and> coin_value payment = 700 \<Longrightarrow>
      coin_value change = 200"
    using d(7) by simp
  have zero: "days = 0 \<Longrightarrow> coin_value paid = 0 \<and> coin_value change = coin_value payment \<and>
      expires_at sub = timestamp_ms clock"
    using d(6,7,10) by simp
  from paid le change expires e5 c500 c700 zero
  show "unat (coin_value paid) = unat (subscription_price space) * unat days \<and>
   unat (coin_value paid) \<le> unat (coin_value payment) \<and>
   unat (coin_value change) = unat (coin_value payment) - unat (coin_value paid) \<and>
   unat (expires_at sub) = unat (timestamp_ms clock) + unat days * unat ONE_DAY_MS \<and>
   (subscription_price space = 100 \<and> days = 5 \<and> coin_value payment = 500 \<longrightarrow>
      coin_value change = 0 \<and> expires_at sub = timestamp_ms clock + 5 * ONE_DAY_MS) \<and>
   (subscription_price space = 100 \<and> days = 5 \<and> coin_value payment = 700 \<longrightarrow>
      coin_value change = 200 \<and> expires_at sub = timestamp_ms clock + 5 * ONE_DAY_MS) \<and>
   (days = 0 \<longrightarrow>
      coin_value paid = 0 \<and> coin_value change = coin_value payment \<and>
      expires_at sub = timestamp_ms clock)"
    by blast
next
  assume pre: "owner identity' = sender ctx \<and> avatar_blob_id identity' \<noteq> None \<and>
    \<not> is_subscribed_internal registry (sender ctx) (space_uid space) \<and>
    unat (total_subscriptions registry) + 1 < 2 ^ 64 \<and>
    unat (active_subscriptions registry) + 1 < 2 ^ 64"
  then obtain avatar where av: "avatar_blob_id identity' = Some avatar"
    by blast
  have now: "unat (timestamp_ms clock) + unat (0 :: u64) * 86400000 < 2 ^ 64"
    using unsigned_less [of "timestamp_ms clock"] by simp
  have free: "unat (subscription_price space) * unat (0 :: u64) \<le> unat (coin_value payment)"
    by simp
  from pre av free now
  show "\<exists>sub0 paid0 change0 registry0 fan_registry0 events0 ctx0.
         subscribe registry fan_registry space identity' payment 0 clock ctx
           = Inr (sub0, paid0, change0, registry0, fan_registry0, events0, ctx0)"
    by (intro subscribe_succeeds) simp_all
qed

theorem subscribe_price_and_expiry_witness:
  "subscribe empty_subscription_registry empty_fan_registry space_A fan_with_avatar
     \<lparr>coin_uid = ObjID 5 0, coin_value = 700\<rparr> 5 \<lparr>timestamp_ms = 5000\<rparr> fan_ctx
   = Inr (sub_A, \<lparr>coin_uid = ObjID 7 0, coin_value = 500\<rparr>,
          \<lparr>coin_uid = ObjID 5 0, coin_value = 200\<rparr>,
          \<lparr>subscription_registry_uid = ObjID 0 0,
             subscriptions = [(ObjID 1 0, [(20, ObjID 7 1)])],
             total_subscriptions = 1, active_subscriptions = 1\<rparr>,
          \<lparr>fan_registry_uid = ObjID 0 1,
             fans = [(ObjID 1 0, [(20, \<lparr>fan_owner = 20, fan_avatar_blob_id = ''glb''\<rparr>)])]\<rparr>,
          [FanAvatarAdded (ObjID 1 0) 20 ''glb'',
           SubscriptionCreated (ObjID 7 1) (ObjID 1 0) 20 432005000 500],
          \<lparr>sender = 20, tx_hash = 7, ids_created = 4\<rparr>) \<and>
   subscription_price space_A = 100 \<and>
   unat (coin_value \<lparr>coin_uid = ObjID 7 0, coin_value = 500\<rparr>)
     = unat (subscription_price space_A) * unat (5 :: u64) \<and>
   coin_value \<lparr>coin_uid = ObjID 5 0, coin_value = 200\<rparr> = 200 \<and>
   unat (expires_at sub_A) = unat (5000 :: u64) + unat (5 :: u64) * unat ONE_DAY_MS \<and>
   subscribe empty_subscription_registry empty_fan_registry space_A fan_with_avatar
     \<lparr>coin_uid = ObjID 5 0, coin_value = 500\<rparr> 5 \<lparr>timestamp_ms = 5000\<rparr> fan_ctx
   = Inr (sub_A, \<lparr>coin_uid = ObjID 7 0, coin_value = 500\<rparr>,
          \<lparr>coin_uid = ObjID 5 0, coin_value = 0\<rparr>,
          \<lparr>subscription_registry_uid = ObjID 0 0,
             subscriptions = [(ObjID 1 0, [(20, ObjID 7 1)])],
             total_subscriptions = 1, active_subscriptions = 1\<rparr>,
          \<lparr>fan_registry_uid = ObjID 0 1,
             fans = [(ObjID 1 0, [(20, \<lparr>fan_owner = 20, fan_avatar_blob_id = ''glb''\<rparr>)])]\<rparr>,
          [FanAvatarAdded (ObjID 1 0) 20 ''glb'',
           SubscriptionCreated (ObjID 7 1) (ObjID 1 0) 20 432005000 500],
          \<lparr>sender = 20, tx_hash = 7, ids_created = 4\<rparr>) \<and>
   coin_value \<lparr>coin_uid = ObjID 5 0, coin_value = 0\<rparr> = 0 \<and>
   expires_at sub_A = timestamp_ms \<lparr>timestamp_ms = 5000\<rparr> + 5 * ONE_DAY_MS \<and>
   owner fan_with_avatar = sender fan_ctx \<and>
   avatar_blob_id fan_with_avatar \<noteq> None \<and>
   \<not> is_subscribed_internal empty_subscription_registry (sender fan_ctx) (space_uid space_A) \<and>
   subscribe empty_subscription_registry empty_fan_registry space_A fan_with_avatar
     \<lparr>coin_uid = ObjID 5 0, coin_value = 0\<rparr> 0 \<lparr>timestamp_ms = 5000\<rparr> fan_ctx
   = Inr (sub_A\<lparr>expires_at := 5000, duration_days := 0\<rparr>,
          \<lparr>coin_uid = ObjID 7 0, coin_value = 0\<rparr>,
          \<lparr>coin_uid = ObjID 5 0, coin_value = 0\<rparr>,
          \<lparr>subscription_registry_uid = ObjID 0 0,
             subscriptions = [(ObjID 1 0, [(20, ObjID 7 1)])],
             total_subscriptions = 1, active_subscriptions = 1\<rparr>,
          \<lparr>fan_registry_uid = ObjID 0 1,
             fans = [(ObjID 1 0, [(20, \<lparr>fan_owner = 20, fan_avatar_blob_id = ''glb''\<rparr>)])]\<rparr>,
          [FanAvatarAdded (ObjID 1 0) 20 ''glb'',
           SubscriptionCreated (ObjID 7 1) (ObjID 1 0) 20 5000 0],
          \<lparr>sender = 20, tx_hash = 7, ids_created = 4\<rparr>) \<and>
   expires_at (sub_A\<lparr>expires_at := 5000, duration_days := 0\<rparr>)
     = timestamp_ms \<lparr>timestamp_ms = 5000\<rparr>"
proof -
  note run = subscribe_scenario
  from subscribe_price_and_expiry [THEN conjunct1, THEN mp, OF run]
  have a: "subscription_price space_A = 100 \<and>
   unat (coin_value \<lparr>coin_uid = ObjID 7 0, coin_value = 500\<rparr>)
     = unat (subscription_price space_A) * unat (5 :: u64) \<and>
   coin_value \<lparr>coin_uid = ObjID 5 0, coin_value = 200\<rparr> = 200 \<and>
   unat (expires_at sub_A) = unat (5000 :: u64) + unat (5 :: u64) * unat ONE_DAY_MS"
    by (simp add: space_A_def ONE_DAY_MS_def)
  have exact: "subscribe empty_subscription_registry empty_fan_registry space_A fan_with_avatar
     \<lparr>coin_uid = ObjID 5 0, coin_value = 500\<rparr> 5 \<lparr>timestamp_ms = 5000\<rparr> fan_ctx
   = Inr (sub_A, \<lparr>coin_uid = ObjID 7 0, coin_value = 500\<rparr>,
          \<lparr>coin_uid = ObjID 5 0, coin_value = 0\<rparr>,
          \<lparr>subscription_registry_uid = ObjID 0 0,
             subscriptions = [(ObjID 1 0, [(20, ObjID 7 1)])],
             total_subscriptions = 1, active_subscriptions = 1\<rparr>,
          \<lparr>fan_registry_uid = ObjID 0 1,
             fans = [(ObjID 1 0, [(20, \<lparr>fan_owner = 20, fan_avatar_blob_id = ''glb''\<rparr>)])]\<rparr>,
          [FanAvatarAdded (ObjID 1 0) 20 ''glb'',
           SubscriptionCreated (ObjID 7 1) (ObjID 1 0) 20 432005000 500],
          \<lparr>sender = 20, tx_hash = 7, ids_created = 4\<rparr>)"
    by (simp add: eval_defs sub_A_def)
  have given: "subscription_price space_A = 100 \<and> (5 :: u64) = 5 \<and>
      coin_value \<lparr>coin_uid = ObjID 5 0, coin_value = 500\<rparr> = 500"
    by (simp add: space_A_def)
  from subscribe_price_and_expiry [THEN conjunct1, THEN mp, OF exact] given
  have b: "coin_value \<lparr>coin_uid = ObjID 5 0, coin_value = 0\<rparr> = 0 \<and>
      expires_at sub_A = timestamp_ms \<lparr>timestamp_ms = 5000\<rparr> + 5 * ONE_DAY_MS"
    by blast
  have pre: "owner fan_with_avatar = sender fan_ctx \<and>
    avatar_blob_id fan_with_avatar \<noteq> None \<and>
    \<not> is_subscribed_internal empty_subscription_registry (sender fan_ctx)
        (space_uid space_A) \<and>
    unat (total_subscriptions empty_subscription_registry) + 1 < 2 ^ 64 \<and>
    unat (active_subscriptions empty_subscription_registry) + 1 < 2 ^ 64"
    by (simp add: fan_with_avatar_def fan_identity_def fan_ctx_def is_subscribed_internal_def
          empty_subscription_registry_def subscription_init_def table_new_def object_new_def)
  note allowed = subscribe_price_and_expiry
    [THEN conjunct2, THEN mp, OF pre, of empty_fan_registry
       "\<lparr>coin_uid = ObjID 5 0, coin_value = 0\<rparr>" "\<lparr>timestamp_ms = 5000\<rparr>"]
  have zero: "subscribe empty_subscription_registry empty_fan_registry space_A fan_with_avatar
     \<lparr>coin_uid = ObjID 5 0, coin_value = 0\<rparr> 0 \<lparr>timestamp_ms = 5000\<rparr> fan_ctx
   = Inr (sub_A\<lparr>expires_at := 5000, duration_days := 0\<rparr>,
          \<lparr>coin_uid = ObjID 7 0, coin_value = 0\<rparr>,
          \<lparr>coin_uid = ObjID 5 0, coin_value = 0\<rparr>,
          \<lparr>subscription_registry_uid = ObjID 0 0,
             subscriptions = [(ObjID 1 0, [(20, ObjID 7 1)])],
             total_subscriptions = 1, active_subscriptions = 1\<rparr>,
          \<lparr>fan_registry_uid = ObjID 0 1,
             fans = [(ObjID 1 0, [(20, \<lparr>fan_owner = 20, fan_avatar_blob_id = ''glb''\<rparr>)])]\<rparr>,
          [FanAvatarAdded (ObjID 1 0) 20 ''glb'',
           SubscriptionCreated (ObjID 7 1) (ObjID 1 0) 20 5000 0],
          \<lparr>sender = 20, tx_hash = 7, ids_created = 4\<rparr>)"
    by (simp add: eval_defs sub_A_def)
  from subscribe_price_and_expiry [THEN conjunct1, THEN mp, OF zero]
  have c: "expires_at (sub_A\<lparr>expires_at := 5000, duration_days := 0\<rparr>)
     = timestamp_ms \<lparr>timestamp_ms = 5000\<rparr>"
    by blast
  from run a exact b pre allowed zero c show ?thesis
    by blast
qed

subsection \<open>A payment below the price\<close>

text \<open>
  Claim C8 says that every call of \<open>subscribe\<close> with a payment below
  \<open>subscription_price \<times> duration_days\<close> aborts with \<open>EInsufficientPayment\<close>. The
  payment is compared only after the identity checks, the registry lookup and the checked
  multiplication: a fan whose identity has no avatar and who pays 0 for five days at price
  100 is turned away with \<open>ENoAvatar\<close>, and at price \<open>2^63\<close> for two days the
  multiplication aborts before any comparison.
\<close>

theorem subscribe_insufficient_payment_counterexample:
  "unat (coin_value \<lparr>coin_uid = ObjID 5 0, coin_value = 0\<rparr>)
     < unat (subscription_price space_A) * unat (5 :: u64) \<and>
   subscribe empty_subscription_registry empty_fan_registry space_A fan_identity
     \<lparr>coin_uid = ObjID 5 0, coin_value = 0\<rparr> 5 \<lparr>timestamp_ms = 5000\<rparr> fan_ctx
     = Inl Subscription_ENoAvatar \<and>
   unat (coin_value \<lparr>coin_uid = ObjID 5 0, coin_value = 700\<rparr>)
     < unat (subscription_price (space_A\<lparr>subscription_price := 9223372036854775808\<rparr>))
         * unat (2 :: u64) \<and>
   subscribe empty_subscription_registry empty_fan_registry
     (space_A\<lparr>subscription_price := 9223372036854775808\<rparr>) fan_with_avatar
     \<lparr>coin_uid = ObjID 5 0, coin_value = 700\<rparr> 2 \<lparr>timestamp_ms = 5000\<rparr> fan_ctx
     = Inl ArithmeticError"
  by (simp add: subscribe_def Let_def is_subscribed_internal_def table_contains_def
        mul_u64_def empty_subscription_registry_def subscription_init_def table_new_def
        object_new_def genesis_ctx_def fan_ctx_def space_A_def fan_identity_def
        fan_with_avatar_def)

text \<open>
  Claim C8, as the code has it. Every call of \<open>subscribe\<close> with a payment below
  \<open>subscription_price \<times> duration_days\<close> aborts and leaves the subscription registry
  (index and both counters), the fan registry and the payment coin as they were. The abort is
  \<open>EInsufficientPayment\<close> when the identity belongs to the sender, has an avatar, the pair
  is not registered and the product fits in 64 bits; otherwise it is the abort of the first
  of these that fails: \<open>ENoIdentity\<close>, \<open>ENoAvatar\<close>, \<open>EAlreadySubscribed\<close>, or the
  arithmetic abort of the multiplication.
\<close>

theorem subscribe_insufficient_payment:
  "unat (coin_value payment) < unat (subscription_price space) * unat days \<longrightarrow>
     subscribe registry fan_registry space identity' payment days clock ctx
       = Inl (if owner identity' \<noteq> sender ctx then Subscription_ENoIdentity
              else if avatar_blob_id identity' = None then Subscription_ENoAvatar
              else if is_subscribed_internal registry (sender ctx) (space_uid space)
                then Subscription_EAlreadySubscribed
              else if \<not> unat (subscription_price space) * unat days < 2 ^ 64
                then ArithmeticError
              else Subscription_EInsufficientPayment) \<and>
     subscribe_tx registry fan_registry space identity' payment days clock ctx
       = (registry, fan_registry, payment)"
proof
  assume short: "unat (coin_value payment) < unat (subscription_price space) * unat days"
  let ?run = "subscribe registry fan_registry space identity' payment days clock ctx"
  have "\<exists>e. ?run = Inl e"
  proof (cases ?run)
    case (Inl e)
    then show ?thesis by blast
  next
    case (Inr r)
    obtain sub paid change registry' fan_registry' events ctx'
      where "r = (sub, paid, change, registry', fan_registry', events, ctx')"
      by (cases r) auto
    with Inr have ok: "?run = Inr (sub, paid, change, registry', fan_registry', events, ctx')"
      by simp
    from subscribe_InrD(4) [OF ok] subscribe_InrD(5) [OF ok]
    have "unat (subscription_price space) * unat days \<le> unat (coin_value payment)"
      by (simp add: word_le_nat_alt unat_mul_no_overflow)
    with short show ?thesis by simp
  qed
  then obtain e where e: "?run = Inl e"
    by blast
  have "unat (subscription_price space) * unat days < 2 ^ 64 \<Longrightarrow>
        coin_value payment < subscription_price space * days"
    using short by (simp add: word_less_nat_alt unat_mul_no_overflow)
  with subscribe_abort_code [OF e]
  have "e = (if owner identity' \<noteq> sender ctx then Subscription_ENoIdentity
              else if avatar_blob_id identity' = None then Subscription_ENoAvatar
              else if is_subscribed_internal registry (sender ctx) (space_uid space)
                then Subscription_EAlreadySubscribed
              else if \<not> unat (subscription_price space) * unat days < 2 ^ 64
                then ArithmeticError
              else Subscription_EInsufficientPayment)"
    by (simp split: if_splits)
  with e show "?run
       = Inl (if owner identity' \<noteq> sender ctx then Subscription_ENoIdentity
              else if avatar_blob_id identity' = None then Subscription_ENoAvatar
              else if is_subscribed_internal registry (sender ctx) (space_uid space)
                then Subscription_EAlreadySubscribed
              else if \<not> unat (subscription_price space) * unat days < 2 ^ 64
                then ArithmeticError
              else Subscription_EInsufficientPayment) \<and>
     subscribe_tx registry fan_registry space identity' payment days clock ctx
       = (registry, fan_registry, payment)"
    by (simp add: subscribe_tx_def)
qed

theorem subscribe_insufficient_payment_witness:
  "unat (coin_value \<lparr>coin_uid = ObjID 5 0, coin_value = 499\<rparr>)
     < unat (subscription_price space_A) * unat (5 :: u64) \<and>
   subscribe empty_subscription_registry empty_fan_registry space_A fan_with_avatar
     \<lparr>coin_uid = ObjID 5 0, coin_value = 499\<rparr> 5 \<lparr>timestamp_ms = 5000\<rparr> fan_ctx
     = Inl Subscription_EInsufficientPayment \<and>
   subscribe_tx empty_subscription_registry empty_fan_registry space_A fan_with_avatar
     \<lparr>coin_uid = ObjID 5 0, coin_value = 499\<rparr> 5 \<lparr>timestamp_ms = 5000\<rparr> fan_ctx
     = (empty_subscription_registry, empty_fan_registry,
        \<lparr>coin_uid = ObjID 5 0, coin_value = 499\<rparr>)"
proof -
  have short: "unat (coin_value \<lparr>coin_uid = ObjID 5 0, coin_value = 499\<rparr>)
     < unat (subscription_price space_A) * unat (5 :: u64)"
    by (simp add: space_A_def)
  have fresh: "\<not> is_subscribed_internal empty_subscription_registry (sender fan_ctx)
                  (space_uid space_A)"
    by (simp add: is_subscribed_internal_def empty_subscription_registry_def
          subscription_init_def table_new_def object_new_def genesis_ctx_def)
  from subscribe_insufficient_payment [THEN mp, OF short] short fresh show ?thesis
    by (simp add: space_A_def fan_with_avatar_def fan_identity_def fan_ctx_def)
qed

subsection \<open>Subscribing twice\<close>

text \<open>
  Claim C4 says that a call of \<open>subscribe\<close> for a pair that has an entry in the index always
  aborts with \<open>EAlreadySubscribed\<close>. The identity checks come first: the creator of space A,
  registered by \<open>create_creator_subscription\<close> and holding an identity without avatar, is
  turned away with \<open>ENoAvatar\<close>.
\<close>

theorem subscribe_registered_counterexample:
  "create_creator_subscription empty_subscription_registry space_A 10
     \<lparr>timestamp_ms = 1000\<rparr> creator_ctx
   = Inr (creator_sub, creator_registered,
          [SubscriptionCreated (ObjID 3 0) (ObjID 1 0) 10 18446744073709551615 0],
          \<lparr>sender = 10, tx_hash = 3, ids_created = 2\<rparr>) \<and>
   is_subscribed_internal creator_registered (sender creator_ctx) (space_uid space_A) \<and>
   owner creator_identity = sender creator_ctx \<and>
   subscribe creator_registered empty_fan_registry space_A creator_identity
     \<lparr>coin_uid = ObjID 5 0, coin_value = 700\<rparr> 5 \<lparr>timestamp_ms = 5000\<rparr> creator_ctx
     = Inl Subscription_ENoAvatar"
  using create_creator_subscription_scenario
  by (simp add: subscribe_def Let_def is_subscribed_internal_def table_contains_def
        creator_registered_def creator_ctx_def space_A_def creator_identity_def)

text \<open>
  Claim C4, as the code has it. For every pair \<open>(space, subscriber)\<close> that has an entry in
  the nested index, whether the subscription behind it is still running or has lapsed, a call
  of \<open>subscribe\<close> by that subscriber for that space aborts and changes nothing, so a lapsed
  subscriber cannot subscribe again. The abort is \<open>EAlreadySubscribed\<close> when the identity
  passed belongs to the sender and has an avatar; otherwise it is \<open>ENoIdentity\<close> or
  \<open>ENoAvatar\<close>.
\<close>

theorem subscribe_registered:
  "is_subscribed_internal registry (sender ctx) (space_uid space) \<longrightarrow>
     subscribe registry fan_registry space identity' payment days clock ctx
       = Inl (if owner identity' \<noteq> sender ctx then Subscription_ENoIdentity
              else if avatar_blob_id identity' = None then Subscription_ENoAvatar
              else Subscription_EAlreadySubscribed) \<and>
     subscribe_tx registry fan_registry space identity' payment days clock ctx
       = (registry, fan_registry, payment)"
  by (simp add: subscribe_def subscribe_tx_def Let_def)

theorem subscribe_registered_witness:
  "is_subscribed_internal fan_registered (sender fan_ctx) (space_uid space_A) \<and>
   is_expired sub_A \<lparr>timestamp_ms = 999999999999\<rparr> \<and>
   subscribe fan_registered empty_fan_registry space_A fan_with_avatar
     \<lparr>coin_uid = ObjID 5 0, coin_value = 700\<rparr> 5 \<lparr>timestamp_ms = 999999999999\<rparr> fan_ctx
     = Inl Subscription_EAlreadySubscribed \<and>
   subscribe_tx fan_registered empty_fan_registry space_A fan_with_avatar
     \<lparr>coin_uid = ObjID 5 0, coin_value = 700\<rparr> 5 \<lparr>timestamp_ms = 999999999999\<rparr> fan_ctx
     = (fan_registered, empty_fan_registry, \<lparr>coin_uid = ObjID 5 0, coin_value = 700\<rparr>)"
proof -
  have reg: "is_subscribed_internal fan_registered (sender fan_ctx) (space_uid space_A)"
    by (simp add: is_subscribed_internal_def table_contains_def fan_registered_def
          fan_ctx_def space_A_def)
  have late: "is_expired sub_A \<lparr>timestamp_ms = 999999999999\<rparr>"
    by (simp add: is_expired_def sub_A_def)
  from subscribe_registered [THEN mp, OF reg] reg late show ?thesis
    by (simp add: fan_with_avatar_def fan_identity_def fan_ctx_def)
qed

subsection \<open>Presence in the registry\<close>

text \<open>
  Claim C7. \<open>is_subscribed\<close> is false for a pair that was never registered: when the space
  is no key of the outer table, and in every reachable registry for every pair that no
  \<open>subscribe\<close> or \<open>create_creator_subscription\<close> on the way has registered. It is true
  right after a successful \<open>subscribe\<close> for the pair. Its result does not depend on the
  clock: it is still true at a time past \<open>expires_at\<close>, when \<open>is_expired\<close> holds.
\<close>

theorem is_subscribed_presence:
  "(\<not> table_contains (subscriptions registry) space_kiosk_id \<longrightarrow>
      \<not> is_subscribed registry subscriber' space_kiosk_id clock) \<and>
   (reachable_subscription_registry pairs registry \<and>
    (space_kiosk_id, subscriber') \<notin> set pairs \<longrightarrow>
      \<not> is_subscribed registry subscriber' space_kiosk_id clock) \<and>
   (subscribe registry fan_registry space identity' payment days clock ctx
      = Inr (sub, paid, change, registry', fan_registry', events, ctx') \<longrightarrow>
      \<not> is_subscribed registry (sender ctx) (space_uid space) clock \<and>
      is_subscribed registry' (sender ctx) (space_uid space) clock \<and>
      (expires_at sub < timestamp_ms later \<longrightarrow>
         is_expired sub later \<and> is_subscribed registry' (sender ctx) (space_uid space) later)) \<and>
   is_subscribed registry subscriber' space_kiosk_id clock
     = is_subscribed registry subscriber' space_kiosk_id clock'"
proof (intro conjI impI)
  assume "\<not> table_contains (subscriptions registry) space_kiosk_id"
  then show "\<not> is_subscribed registry subscriber' space_kiosk_id clock"
    by (simp add: is_subscribed_def is_subscribed_internal_def)
next
  assume "reachable_subscription_registry pairs registry \<and>
    (space_kiosk_id, subscriber') \<notin> set pairs"
  then show "\<not> is_subscribed registry subscriber' space_kiosk_id clock"
    using reachable_subscription_registry_pairs [of pairs registry subscriber' space_kiosk_id]
    by (auto simp: is_subscribed_def)
next
  assume ok: "subscribe registry fan_registry space identity' payment days clock ctx
      = Inr (sub, paid, change, registry', fan_registry', events, ctx')"
  from subscribe_InrD(3) [OF ok]
  show "\<not> is_subscribed registry (sender ctx) (space_uid space) clock"
    by (simp add: is_subscribed_def)
  from is_subscribed_internal_registered [OF subscribe_InrD(13) [OF ok]]
  show "is_subscribed registry' (sender ctx) (space_uid space) clock"
    by (simp add: is_subscribed_def)
next
  assume ok: "subscribe registry fan_registry space identity' payment days clock ctx
      = Inr (sub, paid, change, registry', fan_registry', events, ctx')"
    and late: "expires_at sub < timestamp_ms later"
  from late show "is_expired sub later"
    by (simp add: is_expired_def)
  from is_subscribed_internal_registered [OF subscribe_InrD(13) [OF ok]]
  show "is_subscribed registry' (sender ctx) (space_uid space) later"
    by (simp add: is_subscribed_def)
next
  show "is_subscribed registry subscriber' space_kiosk_id clock
     = is_subscribed registry subscriber' space_kiosk_id clock'"
    by (simp add: is_subscribed_def)
qed

theorem is_subscribed_presence_witness:
  "\<not> table_contains (subscriptions empty_subscription_registry) (space_uid space_A) \<and>
   \<not> is_subscribed empty_subscription_registry 20 (space_uid space_A) \<lparr>timestamp_ms = 5000\<rparr> \<and>
   reachable_subscription_registry [(space_uid space_A, sender fan_ctx)] fan_registered \<and>
   (space_uid space_B, 20) \<notin> set [(space_uid space_A, sender fan_ctx)] \<and>
   \<not> is_subscribed fan_registered 20 (space_uid space_B) \<lparr>timestamp_ms = 5000\<rparr> \<and>
   is_subscribed fan_registered (sender fan_ctx) (space_uid space_A) \<lparr>timestamp_ms = 5000\<rparr> \<and>
   expires_at sub_A < timestamp_ms \<lparr>timestamp_ms = 999999999999\<rparr> \<and>
   is_expired sub_A \<lparr>timestamp_ms = 999999999999\<rparr> \<and>
   is_subscribed fan_registered (sender fan_ctx) (space_uid space_A)
     \<lparr>timestamp_ms = 999999999999\<rparr>"
proof -
  have run: "subscribe empty_subscription_registry empty_fan_registry space_A fan_with_avatar
         \<lparr>coin_uid = ObjID 5 0, coin_value = 700\<rparr> 5 \<lparr>timestamp_ms = 5000\<rparr> fan_ctx
   = Inr (sub_A, \<lparr>coin_uid = ObjID 7 0, coin_value = 500\<rparr>,
          \<lparr>coin_uid = ObjID 5 0, coin_value = 200\<rparr>, fan_registered,
          \<lparr>fan_registry_uid = ObjID 0 1,
             fans = [(ObjID 1 0, [(20, \<lparr>fan_owner = 20, fan_avatar_blob_id = ''glb''\<rparr>)])]\<rparr>,
          [FanAvatarAdded (ObjID 1 0) 20 ''glb'',
           SubscriptionCreated (ObjID 7 1) (ObjID 1 0) 20 432005000 500],
          \<lparr>sender = 20, tx_hash = 7, ids_created = 4\<rparr>)"
    using subscribe_scenario by (simp add: fan_registered_def)
  have empty: "\<not> table_contains (subscriptions empty_subscription_registry) (space_uid space_A)"
    by (simp add: empty_subscription_registry_def subscription_init_def table_new_def
          object_new_def)
  have "reachable_subscription_registry [] empty_subscription_registry"
    unfolding empty_subscription_registry_def by (rule reach_sub_init)
  then have reach: "reachable_subscription_registry [(space_uid space_A, sender fan_ctx)]
      fan_registered"
    using run by (rule reach_subscribe)
  have other: "(space_uid space_B, 20) \<notin> set [(space_uid space_A, sender fan_ctx)]"
    by (simp add: space_A_def space_B_def)
  have late: "expires_at sub_A < timestamp_ms \<lparr>timestamp_ms = 999999999999\<rparr>"
    by (simp add: sub_A_def)
  note pres = is_subscribed_presence
  from pres [where registry = empty_subscription_registry and space_kiosk_id = "space_uid space_A"
              and subscriber' = 20 and clock = "\<lparr>timestamp_ms = 5000\<rparr>", THEN conjunct1]
    empty
  have a: "\<not> is_subscribed empty_subscription_registry 20 (space_uid space_A)
             \<lparr>timestamp_ms = 5000\<rparr>"
    by blast
  from pres [where registry = fan_registered and space_kiosk_id = "space_uid space_B"
              and subscriber' = 20 and clock = "\<lparr>timestamp_ms = 5000\<rparr>"
              and pairs = "[(space_uid space_A, sender fan_ctx)]",
            THEN conjunct2, THEN conjunct1]
    reach other
  have b: "\<not> is_subscribed fan_registered 20 (space_uid space_B) \<lparr>timestamp_ms = 5000\<rparr>"
    by blast
  from pres [where later = "\<lparr>timestamp_ms = 999999999999\<rparr>",
            THEN conjunct2, THEN conjunct2, THEN conjunct1, THEN mp, OF run] late
  have c: "is_subscribed fan_registered (sender fan_ctx) (space_uid space_A)
             \<lparr>timestamp_ms = 5000\<rparr> \<and>
           is_expired sub_A \<lparr>timestamp_ms = 999999999999\<rparr> \<and>
           is_subscribed fan_registered (sender fan_ctx) (space_uid space_A)
             \<lparr>timestamp_ms = 999999999999\<rparr>"
    by blast
  from empty a reach other b c late show ?thesis
    by blast
qed

subsection \<open>An empty avatar reference\<close>

text \<open>
  Claim C10. \<open>mint_identity\<close> turns an empty avatar string into an absent avatar, but
  \<open>bind_avatar\<close> stores whatever string the owner passes: after a call with the empty
  string, \<open>avatar_blob_id\<close> is \<open>Some\<close> of the empty string, \<open>subscribe\<close> no longer
  aborts with \<open>ENoAvatar\<close>, and it succeeds when its other checks pass.
\<close>

theorem empty_avatar_binding:
  "(mint_identity registry username' bio' [] image_blob_id' clock ctx
      = Inr (identity', registry', events, ctx') \<longrightarrow>
      avatar_blob_id identity' = None) \<and>
   (owner identity0 = sender ctx0 \<longrightarrow>
      bind_avatar identity0 avatar ctx0
        = Inr (identity0\<lparr>avatar_blob_id := Some avatar\<rparr>,
               [AvatarBound (identity_uid identity0) (owner identity0) avatar]) \<and>
      bind_avatar identity0 [] ctx0
        = Inr (identity0\<lparr>avatar_blob_id := Some []\<rparr>,
               [AvatarBound (identity_uid identity0) (owner identity0) []]) \<and>
      avatar_blob_id (identity0\<lparr>avatar_blob_id := Some []\<rparr>) \<noteq> None \<and>
      subscribe registry1 fan_registry space (identity0\<lparr>avatar_blob_id := Some []\<rparr>)
        payment days clock1 ctx1 \<noteq> Inl Subscription_ENoAvatar) \<and>
   (owner identity0 = sender ctx1 \<and>
    \<not> is_subscribed_internal registry1 (sender ctx1) (space_uid space) \<and>
    unat (subscription_price space) * unat days \<le> unat (coin_value payment) \<and>
    unat (timestamp_ms clock1) + unat days * 86400000 < 2 ^ 64 \<and>
    unat (total_subscriptions registry1) + 1 < 2 ^ 64 \<and>
    unat (active_subscriptions registry1) + 1 < 2 ^ 64 \<longrightarrow>
      (\<exists>sub paid change registry2 fan_registry2 events2 ctx2.
         subscribe registry1 fan_registry space (identity0\<lparr>avatar_blob_id := Some []\<rparr>)
           payment days clock1 ctx1
           = Inr (sub, paid, change, registry2, fan_registry2, events2, ctx2)))"
proof (intro conjI impI)
  assume "mint_identity registry username' bio' [] image_blob_id' clock ctx
      = Inr (identity', registry', events, ctx')"
  then show "avatar_blob_id identity' = None"
    by (auto simp: mint_identity_def Let_def object_new_def bindE_eq_Inr split: if_splits)
next
  assume own: "owner identity0 = sender ctx0"
  then show "bind_avatar identity0 avatar ctx0
        = Inr (identity0\<lparr>avatar_blob_id := Some avatar\<rparr>,
               [AvatarBound (identity_uid identity0) (owner identity0) avatar])"
    by (simp add: bind_avatar_def Let_def)
  from own show "bind_avatar identity0 [] ctx0
        = Inr (identity0\<lparr>avatar_blob_id := Some []\<rparr>,
               [AvatarBound (identity_uid identity0) (owner identity0) []])"
    by (simp add: bind_avatar_def Let_def)
  show "avatar_blob_id (identity0\<lparr>avatar_blob_id := Some []\<rparr>) \<noteq> None"
    by simp
  show "subscribe registry1 fan_registry space (identity0\<lparr>avatar_blob_id := Some []\<rparr>)
        payment days clock1 ctx1 \<noteq> Inl Subscription_ENoAvatar"
  proof
    assume "subscribe registry1 fan_registry space (identity0\<lparr>avatar_blob_id := Some []\<rparr>)
        payment days clock1 ctx1 = Inl Subscription_ENoAvatar"
    from subscribe_abort_code [OF this] show False
      by (simp split: if_splits)
  qed
next
  assume "owner identity0 = sender ctx1 \<and>
    \<not> is_subscribed_internal registry1 (sender ctx1) (space_uid space) \<and>
    unat (subscription_price space) * unat days \<le> unat (coin_value payment) \<and>
    unat (timestamp_ms clock1) + unat days * 86400000 < 2 ^ 64 \<and>
    unat (total_subscriptions registry1) + 1 < 2 ^ 64 \<and>
    unat (active_subscriptions registry1) + 1 < 2 ^ 64"
  then show "\<exists>sub paid change registry2 fan_registry2 events2 ctx2.
         subscribe registry1 fan_registry space (identity0\<lparr>avatar_blob_id := Some []\<rparr>)
           payment days clock1 ctx1
           = Inr (sub, paid, change, registry2, fan_registry2, events2, ctx2)"
    by (intro subscribe_succeeds [where avatar = "[]"]) simp_all
qed

theorem empty_avatar_binding_witness:
  "mint_identity empty_identity_registry ''fan'' ''hello'' [] ''img''
     \<lparr>timestamp_ms = 100\<rparr> fan_ctx
   = Inr (fan_identity,
          \<lparr>identity_registry_uid = ObjID 0 0, identities = [(20, ObjID 7 0)],
             total_identities = 1, total_creators = 0\<rparr>,
          [IdentityMinted (ObjID 7 0) 20 ''fan'' 100],
          \<lparr>sender = 20, tx_hash = 7, ids_created = 1\<rparr>) \<and>
   avatar_blob_id fan_identity = None \<and>
   owner fan_identity = sender fan_ctx \<and>
   bind_avatar fan_identity [] fan_ctx
     = Inr (fan_identity\<lparr>avatar_blob_id := Some []\<rparr>, [AvatarBound (ObjID 7 0) 20 []]) \<and>
   subscribe empty_subscription_registry empty_fan_registry space_A
     (fan_identity\<lparr>avatar_blob_id := Some []\<rparr>)
     \<lparr>coin_uid = ObjID 5 0, coin_value = 700\<rparr> 5 \<lparr>timestamp_ms = 5000\<rparr> fan_ctx
   = Inr (sub_A, \<lparr>coin_uid = ObjID 7 0, coin_value = 500\<rparr>,
          \<lparr>coin_uid = ObjID 5 0, coin_value = 200\<rparr>, fan_registered,
          \<lparr>fan_registry_uid = ObjID 0 1,
             fans = [(ObjID 1 0, [(20, \<lparr>fan_owner = 20, fan_avatar_blob_id = []\<rparr>)])]\<rparr>,
          [FanAvatarAdded (ObjID 1 0) 20 [],
           SubscriptionCreated (ObjID 7 1) (ObjID 1 0) 20 432005000 500],
          \<lparr>sender = 20, tx_hash = 7, ids_created = 4\<rparr>)"
proof -
  note mint = mint_identity_scenario
  have own: "owner fan_identity = sender fan_ctx"
    by (simp add: fan_identity_def fan_ctx_def)
  have run: "subscribe empty_subscription_registry empty_fan_registry space_A
     (fan_identity\<lparr>avatar_blob_id := Some []\<rparr>)
     \<lparr>coin_uid = ObjID 5 0, coin_value = 700\<rparr> 5 \<lparr>timestamp_ms = 5000\<rparr> fan_ctx
   = Inr (sub_A, \<lparr>coin_uid = ObjID 7 0, coin_value = 500\<rparr>,
          \<lparr>coin_uid = ObjID 5 0, coin_value = 200\<rparr>, fan_registered,
          \<lparr>fan_registry_uid = ObjID 0 1,
             fans = [(ObjID 1 0, [(20, \<lparr>fan_owner = 20, fan_avatar_blob_id = []\<rparr>)])]\<rparr>,
          [FanAvatarAdded (ObjID 1 0) 20 [],
           SubscriptionCreated (ObjID 7 1) (ObjID 1 0) 20 432005000 500],
          \<lparr>sender = 20, tx_hash = 7, ids_created = 4\<rparr>)"
    by (simp add: eval_defs sub_A_def fan_registered_def)
  from empty_avatar_binding [THEN conjunct1, THEN mp, OF mint]
  have none: "avatar_blob_id fan_identity = None" .
  from empty_avatar_binding [THEN conjunct2, THEN conjunct1, THEN mp, OF own]
  have "bind_avatar fan_identity [] fan_ctx
     = Inr (fan_identity\<lparr>avatar_blob_id := Some []\<rparr>,
            [AvatarBound (identity_uid fan_identity) (owner fan_identity) []])"
    by blast
  then have bound: "bind_avatar fan_identity [] fan_ctx
     = Inr (fan_identity\<lparr>avatar_blob_id := Some []\<rparr>, [AvatarBound (ObjID 7 0) 20 []])"
    by (simp add: fan_identity_def)
  have pre: "owner fan_identity = sender fan_ctx \<and>
    \<not> is_subscribed_internal empty_subscription_registry (sender fan_ctx)
        (space_uid space_A) \<and>
    unat (subscription_price space_A) * unat (5 :: u64)
      \<le> unat (coin_value \<lparr>coin_uid = ObjID 5 0, coin_value = 700\<rparr>) \<and>
    unat (timestamp_ms \<lparr>timestamp_ms = 5000\<rparr>) + unat (5 :: u64) * 86400000 < 2 ^ 64 \<and>
    unat (total_subscriptions empty_subscription_registry) + 1 < 2 ^ 64 \<and>
    unat (active_subscriptions empty_subscription_registry) + 1 < 2 ^ 64"
    by (simp add: fan_identity_def fan_ctx_def space_A_def is_subscribed_internal_def
          empty_subscription_registry_def subscription_init_def table_new_def object_new_def)
  note accepted = empty_avatar_binding
    [THEN conjunct2, THEN conjunct2, THEN mp, OF pre, of empty_fan_registry]
  from mint none own bound run accepted show ?thesis
    by blast
qed

subsection \<open>Renewal\<close>

text \<open>
  Claim C1 says that every call of \<open>renew_subscription\<close> by the subscriber with a payment
  that covers the price sets \<open>expires_at\<close> to the old value (or to \<open>now\<close>, when the
  subscription has lapsed) plus \<open>additional_days \<times> ONE_DAY_MS\<close>. The additions are checked:
  the creator's lifetime subscription, which \<open>create_creator_subscription\<close> gives the
  largest \<open>expires_at\<close> a \<open>u64\<close> holds, cannot be renewed by a single day; the call
  aborts in the addition.
\<close>

theorem renew_subscription_counterexample:
  "create_creator_subscription empty_subscription_registry space_A 10
     \<lparr>timestamp_ms = 1000\<rparr> creator_ctx
   = Inr (creator_sub, creator_registered,
          [SubscriptionCreated (ObjID 3 0) (ObjID 1 0) 10 18446744073709551615 0],
          \<lparr>sender = 10, tx_hash = 3, ids_created = 2\<rparr>) \<and>
   subscriber creator_sub = sender creator_ctx \<and>
   unat (subscription_price space_A) * unat (1 :: u64)
     \<le> unat (coin_value \<lparr>coin_uid = ObjID 5 0, coin_value = 700\<rparr>) \<and>
   \<not> is_expired creator_sub \<lparr>timestamp_ms = 2000\<rparr> \<and>
   renew_subscription creator_registered creator_sub
     \<lparr>coin_uid = ObjID 5 0, coin_value = 700\<rparr> space_A 1 \<lparr>timestamp_ms = 2000\<rparr> creator_ctx
     = Inl ArithmeticError"
  using create_creator_subscription_scenario
  by (simp add: renew_subscription_def Let_def mul_u64_def add_u64_def coin_split_def
        object_new_def ONE_DAY_MS_def is_expired_def creator_sub_def creator_ctx_def
        space_A_def)

text \<open>
  Claim C1, as the code has it. For every call of \<open>renew_subscription\<close> by the subscriber
  with a payment that covers \<open>subscription_price \<times> additional_days\<close>, in which the new
  expiry and the new day count fit in 64 bits: the call succeeds, and the new \<open>expires_at\<close>
  is \<open>now + additional_days \<times> ONE_DAY_MS\<close> when the subscription has expired
  (\<open>expires_at < now\<close>) and the old \<open>expires_at + additional_days \<times> ONE_DAY_MS\<close>
  otherwise. When one of the two does not fit, the call aborts with an arithmetic error.
  Two successful renewals by the same number of days, of a subscription that has not expired at
  either call, advance \<open>expires_at\<close> by exactly \<open>2 \<times> additional_days \<times> ONE_DAY_MS\<close>.
\<close>

theorem renew_subscription_extension:
  "(subscriber subscription = sender ctx \<and>
    unat (subscription_price space) * unat additional_days \<le> unat (coin_value payment) \<and>
    unat (if is_expired subscription clock then timestamp_ms clock
          else expires_at subscription) + unat additional_days * unat ONE_DAY_MS < 2 ^ 64 \<and>
    unat (duration_days subscription) + unat additional_days < 2 ^ 64 \<longrightarrow>
      (\<exists>paid change subscription' events ctx'.
         renew_subscription registry subscription payment space additional_days clock ctx
           = Inr (paid, change, registry, subscription', events, ctx') \<and>
         (is_expired subscription clock \<longrightarrow>
            unat (expires_at subscription')
              = unat (timestamp_ms clock) + unat additional_days * unat ONE_DAY_MS) \<and>
         (\<not> is_expired subscription clock \<longrightarrow>
            unat (expires_at subscription')
              = unat (expires_at subscription) + unat additional_days * unat ONE_DAY_MS))) \<and>
   (subscriber subscription = sender ctx \<and>
    unat (subscription_price space) * unat additional_days \<le> unat (coin_value payment) \<and>
    \<not> (unat (if is_expired subscription clock then timestamp_ms clock
              else expires_at subscription) + unat additional_days * unat ONE_DAY_MS < 2 ^ 64 \<and>
       unat (duration_days subscription) + unat additional_days < 2 ^ 64) \<longrightarrow>
      renew_subscription registry subscription payment space additional_days clock ctx
        = Inl ArithmeticError) \<and>
   (renew_subscription registry subscription payment space additional_days clock ctx
      = Inr (paid1, change1, registry1, subscription1, events1, ctx1) \<and>
    renew_subscription registry1 subscription1 payment2 space2 additional_days clock2 ctx2
      = Inr (paid2, change2, registry2, subscription2, events2, ctx3) \<and>
    \<not> is_expired subscription clock \<and> \<not> is_expired subscription1 clock2 \<longrightarrow>
      unat (expires_at subscription2)
        = unat (expires_at subscription) + 2 * unat additional_days * unat ONE_DAY_MS)"
proof (intro conjI; rule impI)
  assume pre: "subscriber subscription = sender ctx \<and>
    unat (subscription_price space) * unat additional_days \<le> unat (coin_value payment) \<and>
    unat (if is_expired subscription clock then timestamp_ms clock
          else expires_at subscription) + unat additional_days * unat ONE_DAY_MS < 2 ^ 64 \<and>
    unat (duration_days subscription) + unat additional_days < 2 ^ 64"
  let ?base = "if expires_at subscription < timestamp_ms clock then timestamp_ms clock
               else expires_at subscription"
  from pre have fits: "unat ?base + unat additional_days * 86400000 < 2 ^ 64"
    by (simp add: is_expired_def)
  then have "unat additional_days * unat ONE_DAY_MS < 2 ^ 64"
    by simp
  then have ud: "unat (additional_days * ONE_DAY_MS) = unat additional_days * 86400000"
    by (simp add: unat_mul_no_overflow)
  with fits have "unat ?base + unat (additional_days * ONE_DAY_MS) < 2 ^ 64"
    by simp
  then have "unat (?base + additional_days * ONE_DAY_MS)
      = unat ?base + unat (additional_days * ONE_DAY_MS)"
    by (rule unat_add_no_overflow)
  with ud have new: "unat (?base + additional_days * ONE_DAY_MS)
      = unat ?base + unat additional_days * unat ONE_DAY_MS"
    by simp
  from pre fits have run:
    "renew_subscription registry subscription payment space additional_days clock ctx
     = Inr (\<lparr>coin_uid = ObjID (tx_hash ctx) (ids_created ctx),
              coin_value = subscription_price space * additional_days\<rparr>,
            payment\<lparr>coin_value := coin_value payment
                                     - subscription_price space * additional_days\<rparr>,
            registry,
            subscription
              \<lparr>expires_at := ?base + additional_days * ONE_DAY_MS,
               duration_days := duration_days subscription + additional_days\<rparr>,
            [SubscriptionRenewed (subscription_uid subscription)
               (?base + additional_days * ONE_DAY_MS)
               (subscription_price space * additional_days)],
            ctx\<lparr>ids_created := ids_created ctx + 1\<rparr>)"
    by (intro renew_subscription_succeeds) simp_all
  from new have
    "(is_expired subscription clock \<longrightarrow>
        unat (expires_at (subscription
              \<lparr>expires_at := ?base + additional_days * ONE_DAY_MS,
               duration_days := duration_days subscription + additional_days\<rparr>))
          = unat (timestamp_ms clock) + unat additional_days * unat ONE_DAY_MS) \<and>
     (\<not> is_expired subscription clock \<longrightarrow>
        unat (expires_at (subscription
              \<lparr>expires_at := ?base + additional_days * ONE_DAY_MS,
               duration_days := duration_days subscription + additional_days\<rparr>))
          = unat (expires_at subscription) + unat additional_days * unat ONE_DAY_MS)"
    by (auto simp: is_expired_def split: if_splits)
  with run show "\<exists>paid change subscription' events ctx'.
         renew_subscription registry subscription payment space additional_days clock ctx
           = Inr (paid, change, registry, subscription', events, ctx') \<and>
         (is_expired subscription clock \<longrightarrow>
            unat (expires_at subscription')
              = unat (timestamp_ms clock) + unat additional_days * unat ONE_DAY_MS) \<and>
         (\<not> is_expired subscription clock \<longrightarrow>
            unat (expires_at subscription')
              = unat (expires_at subscription) + unat additional_days * unat ONE_DAY_MS)"
    by blast
next
  assume "subscriber subscription = sender ctx \<and>
    unat (subscription_price space) * unat additional_days \<le> unat (coin_value payment) \<and>
    \<not> (unat (if is_expired subscription clock then timestamp_ms clock
              else expires_at subscription) + unat additional_days * unat ONE_DAY_MS < 2 ^ 64 \<and>
       unat (duration_days subscription) + unat additional_days < 2 ^ 64)"
  then show "renew_subscription registry subscription payment space additional_days clock ctx
        = Inl ArithmeticError"
    by (intro renew_subscription_overflow) (simp_all add: is_expired_def)
next
  assume two: "renew_subscription registry subscription payment space additional_days clock ctx
      = Inr (paid1, change1, registry1, subscription1, events1, ctx1) \<and>
    renew_subscription registry1 subscription1 payment2 space2 additional_days clock2 ctx2
      = Inr (paid2, change2, registry2, subscription2, events2, ctx3) \<and>
    \<not> is_expired subscription clock \<and> \<not> is_expired subscription1 clock2"
  then have first: "renew_subscription registry subscription payment space additional_days
      clock ctx = Inr (paid1, change1, registry1, subscription1, events1, ctx1)"
    and second: "renew_subscription registry1 subscription1 payment2 space2 additional_days
      clock2 ctx2 = Inr (paid2, change2, registry2, subscription2, events2, ctx3)"
    and active1: "\<not> expires_at subscription < timestamp_ms clock"
    and active2: "\<not> expires_at subscription1 < timestamp_ms clock2"
    by (simp_all add: is_expired_def)
  from renew_subscription_InrD(6) [OF first]
  have ud: "unat (additional_days * ONE_DAY_MS) = unat additional_days * unat ONE_DAY_MS"
    by (simp add: unat_mul_no_overflow)
  from renew_subscription_InrD(8) [OF first] active1
  have e1: "expires_at subscription1 = expires_at subscription + additional_days * ONE_DAY_MS"
    by simp
  from renew_subscription_InrD(7) [OF first] active1
  have "unat (expires_at subscription + additional_days * ONE_DAY_MS)
      = unat (expires_at subscription) + unat (additional_days * ONE_DAY_MS)"
    by (simp add: unat_add_no_overflow)
  with e1 ud have u1: "unat (expires_at subscription1)
      = unat (expires_at subscription) + unat additional_days * unat ONE_DAY_MS"
    by simp
  from renew_subscription_InrD(8) [OF second] active2
  have e2: "expires_at subscription2 = expires_at subscription1 + additional_days * ONE_DAY_MS"
    by simp
  from renew_subscription_InrD(7) [OF second] active2
  have "unat (expires_at subscription1 + additional_days * ONE_DAY_MS)
      = unat (expires_at subscription1) + unat (additional_days * ONE_DAY_MS)"
    by (simp add: unat_add_no_overflow)
  with e2 ud have "unat (expires_at subscription2)
      = unat (expires_at subscription1) + unat additional_days * unat ONE_DAY_MS"
    by simp
  with u1 show "unat (expires_at subscription2)
        = unat (expires_at subscription) + 2 * unat additional_days * unat ONE_DAY_MS"
    by simp
qed


theorem renew_subscription_extension_witness:
  "subscriber sub_A = sender fan_ctx \<and>
   \<not> is_expired sub_A \<lparr>timestamp_ms = 6000\<rparr> \<and>
   renew_subscription fan_registered sub_A \<lparr>coin_uid = ObjID 5 0, coin_value = 700\<rparr>
     space_A 5 \<lparr>timestamp_ms = 6000\<rparr> fan_ctx
   = Inr (\<lparr>coin_uid = ObjID 7 0, coin_value = 500\<rparr>,
          \<lparr>coin_uid = ObjID 5 0, coin_value = 200\<rparr>, fan_registered,
          sub_A\<lparr>expires_at := 864005000, duration_days := 10\<rparr>,
          [SubscriptionRenewed (ObjID 7 1) 864005000 500],
          \<lparr>sender = 20, tx_hash = 7, ids_created = 1\<rparr>) \<and>
   \<not> is_expired (sub_A\<lparr>expires_at := 864005000, duration_days := 10\<rparr>)
       \<lparr>timestamp_ms = 500000000\<rparr> \<and>
   renew_subscription fan_registered (sub_A\<lparr>expires_at := 864005000, duration_days := 10\<rparr>)
     \<lparr>coin_uid = ObjID 6 0, coin_value = 500\<rparr> space_A 5 \<lparr>timestamp_ms = 500000000\<rparr>
     fan_ctx
   = Inr (\<lparr>coin_uid = ObjID 7 0, coin_value = 500\<rparr>,
          \<lparr>coin_uid = ObjID 6 0, coin_value = 0\<rparr>, fan_registered,
          sub_A\<lparr>expires_at := 1296005000, duration_days := 15\<rparr>,
          [SubscriptionRenewed (ObjID 7 1) 1296005000 500],
          \<lparr>sender = 20, tx_hash = 7, ids_created = 1\<rparr>) \<and>
   unat (expires_at (sub_A\<lparr>expires_at := 1296005000, duration_days := 15\<rparr>))
     = unat (expires_at sub_A) + 2 * unat (5 :: u64) * unat ONE_DAY_MS \<and>
   is_expired sub_A \<lparr>timestamp_ms = 999999999999\<rparr> \<and>
   renew_subscription fan_registered sub_A \<lparr>coin_uid = ObjID 5 0, coin_value = 700\<rparr>
     space_A 5 \<lparr>timestamp_ms = 999999999999\<rparr> fan_ctx
   = Inr (\<lparr>coin_uid = ObjID 7 0, coin_value = 500\<rparr>,
          \<lparr>coin_uid = ObjID 5 0, coin_value = 200\<rparr>, fan_registered,
          sub_A\<lparr>expires_at := 1000431999999, duration_days := 10\<rparr>,
          [SubscriptionRenewed (ObjID 7 1) 1000431999999 500],
          \<lparr>sender = 20, tx_hash = 7, ids_created = 1\<rparr>) \<and>
   unat (expires_at (sub_A\<lparr>expires_at := 1000431999999, duration_days := 10\<rparr>))
     = unat (999999999999 :: u64) + unat (5 :: u64) * unat ONE_DAY_MS \<and>
   renew_subscription creator_registered creator_sub
     \<lparr>coin_uid = ObjID 5 0, coin_value = 700\<rparr> space_A 1 \<lparr>timestamp_ms = 2000\<rparr> creator_ctx
     = Inl ArithmeticError"
proof -
  note renew_defs = renew_subscription_def Let_def mul_u64_def add_u64_def coin_split_def
    object_new_def ONE_DAY_MS_def sub_A_def fan_ctx_def space_A_def
  have own: "subscriber sub_A = sender fan_ctx"
    by (simp add: sub_A_def fan_ctx_def)
  have active: "\<not> is_expired sub_A \<lparr>timestamp_ms = 6000\<rparr>"
    by (simp add: is_expired_def sub_A_def)
  have first: "renew_subscription fan_registered sub_A
     \<lparr>coin_uid = ObjID 5 0, coin_value = 700\<rparr>
     space_A 5 \<lparr>timestamp_ms = 6000\<rparr> fan_ctx
   = Inr (\<lparr>coin_uid = ObjID 7 0, coin_value = 500\<rparr>,
          \<lparr>coin_uid = ObjID 5 0, coin_value = 200\<rparr>, fan_registered,
          sub_A\<lparr>expires_at := 864005000, duration_days := 10\<rparr>,
          [SubscriptionRenewed (ObjID 7 1) 864005000 500],
          \<lparr>sender = 20, tx_hash = 7, ids_created = 1\<rparr>)"
    by (simp add: renew_defs)
  have active2: "\<not> is_expired (sub_A\<lparr>expires_at := 864005000, duration_days := 10\<rparr>)
       \<lparr>timestamp_ms = 500000000\<rparr>"
    by (simp add: is_expired_def)
  have second: "renew_subscription fan_registered
     (sub_A\<lparr>expires_at := 864005000, duration_days := 10\<rparr>)
     \<lparr>coin_uid = ObjID 6 0, coin_value = 500\<rparr> space_A 5 \<lparr>timestamp_ms = 500000000\<rparr>
     fan_ctx
   = Inr (\<lparr>coin_uid = ObjID 7 0, coin_value = 500\<rparr>,
          \<lparr>coin_uid = ObjID 6 0, coin_value = 0\<rparr>, fan_registered,
          sub_A\<lparr>expires_at := 1296005000, duration_days := 15\<rparr>,
          [SubscriptionRenewed (ObjID 7 1) 1296005000 500],
          \<lparr>sender = 20, tx_hash = 7, ids_created = 1\<rparr>)"
    by (simp add: renew_defs)
  from first second active active2
  have twice: "unat (expires_at (sub_A\<lparr>expires_at := 1296005000, duration_days := 15\<rparr>))
     = unat (expires_at sub_A) + 2 * unat (5 :: u64) * unat ONE_DAY_MS"
    by (intro renew_subscription_extension
          [THEN conjunct2, THEN conjunct2, THEN mp]) blast
  have lapsed: "is_expired sub_A \<lparr>timestamp_ms = 999999999999\<rparr>"
    by (simp add: is_expired_def sub_A_def)
  have late: "renew_subscription fan_registered sub_A
     \<lparr>coin_uid = ObjID 5 0, coin_value = 700\<rparr>
     space_A 5 \<lparr>timestamp_ms = 999999999999\<rparr> fan_ctx
   = Inr (\<lparr>coin_uid = ObjID 7 0, coin_value = 500\<rparr>,
          \<lparr>coin_uid = ObjID 5 0, coin_value = 200\<rparr>, fan_registered,
          sub_A\<lparr>expires_at := 1000431999999, duration_days := 10\<rparr>,
          [SubscriptionRenewed (ObjID 7 1) 1000431999999 500],
          \<lparr>sender = 20, tx_hash = 7, ids_created = 1\<rparr>)"
    by (simp add: renew_defs)
  have pre: "subscriber sub_A = sender fan_ctx \<and>
    unat (subscription_price space_A) * unat (5 :: u64)
      \<le> unat (coin_value \<lparr>coin_uid = ObjID 5 0, coin_value = 700\<rparr>) \<and>
    unat (if is_expired sub_A \<lparr>timestamp_ms = 999999999999\<rparr>
          then timestamp_ms \<lparr>timestamp_ms = 999999999999\<rparr>
          else expires_at sub_A) + unat (5 :: u64) * unat ONE_DAY_MS < 2 ^ 64 \<and>
    unat (duration_days sub_A) + unat (5 :: u64) < 2 ^ 64"
    using lapsed by (simp add: sub_A_def fan_ctx_def space_A_def)
  from renew_subscription_extension [THEN conjunct1, THEN mp, OF pre, of fan_registered]
    late lapsed
  have fresh: "unat (expires_at (sub_A\<lparr>expires_at := 1000431999999, duration_days := 10\<rparr>))
     = unat (999999999999 :: u64) + unat (5 :: u64) * unat ONE_DAY_MS"
    by auto
  have over: "subscriber creator_sub = sender creator_ctx \<and>
    unat (subscription_price space_A) * unat (1 :: u64)
      \<le> unat (coin_value \<lparr>coin_uid = ObjID 5 0, coin_value = 700\<rparr>) \<and>
    \<not> (unat (if is_expired creator_sub \<lparr>timestamp_ms = 2000\<rparr>
              then timestamp_ms \<lparr>timestamp_ms = 2000\<rparr>
              else expires_at creator_sub) + unat (1 :: u64) * unat ONE_DAY_MS < 2 ^ 64 \<and>
       unat (duration_days creator_sub) + unat (1 :: u64) < 2 ^ 64)"
    by (simp add: creator_sub_def creator_ctx_def space_A_def is_expired_def)
  note abort = renew_subscription_extension
    [THEN conjunct2, THEN conjunct1, THEN mp, OF over, of creator_registered]
  from own active first active2 second twice lapsed late fresh abort show ?thesis
    by blast
qed

subsection \<open>Renewal against another space\<close>

text \<open>
  Claim C9 says that \<open>renew_subscription\<close> succeeds for every subscription and every space
  other than the subscription's own, when the sender is the subscriber and the payment covers
  that space's price. The checked additions stand in the way here too: the creator's lifetime
  subscription to space A, renewed against space B for one day, aborts.
\<close>

theorem renew_subscription_any_space_counterexample:
  "space_uid space_B \<noteq> space_id creator_sub \<and>
   subscriber creator_sub = sender creator_ctx \<and>
   unat (subscription_price space_B) * unat (1 :: u64)
     \<le> unat (coin_value \<lparr>coin_uid = ObjID 5 0, coin_value = 1\<rparr>) \<and>
   renew_subscription creator_registered creator_sub
     \<lparr>coin_uid = ObjID 5 0, coin_value = 1\<rparr> space_B 1 \<lparr>timestamp_ms = 2000\<rparr> creator_ctx
     = Inl ArithmeticError"
  by (simp add: renew_subscription_def Let_def mul_u64_def add_u64_def coin_split_def
        object_new_def ONE_DAY_MS_def creator_sub_def creator_ctx_def space_B_def)

text \<open>
  Claim C9, as the code has it. \<open>renew_subscription\<close> never compares the space passed with
  \<open>subscription.space_id\<close>: its result depends on the space through the price alone. For
  every subscription and every space with another id, when the sender is the subscriber, the
  payment covers the passed space's \<open>subscription_price \<times> additional_days\<close>, and the new
  expiry and day count fit in 64 bits, the renewal succeeds, extends \<open>expires_at\<close> of the
  subscription (which stays a subscription to its own space) and takes the passed space's
  price.
\<close>

theorem renew_subscription_any_space:
  "(space_uid space \<noteq> space_id subscription \<and>
    subscriber subscription = sender ctx \<and>
    unat (subscription_price space) * unat additional_days \<le> unat (coin_value payment) \<and>
    unat (if is_expired subscription clock then timestamp_ms clock
          else expires_at subscription) + unat additional_days * unat ONE_DAY_MS < 2 ^ 64 \<and>
    unat (duration_days subscription) + unat additional_days < 2 ^ 64 \<longrightarrow>
      (\<exists>paid change subscription' events ctx'.
         renew_subscription registry subscription payment space additional_days clock ctx
           = Inr (paid, change, registry, subscription', events, ctx') \<and>
         unat (coin_value paid) = unat (subscription_price space) * unat additional_days \<and>
         unat (coin_value change)
           = unat (coin_value payment) - unat (subscription_price space) * unat additional_days \<and>
         space_id subscription' = space_id subscription \<and>
         unat (expires_at subscription')
           = unat (if is_expired subscription clock then timestamp_ms clock
                   else expires_at subscription) + unat additional_days * unat ONE_DAY_MS)) \<and>
   (subscription_price space2 = subscription_price space \<longrightarrow>
      renew_subscription registry subscription payment space2 additional_days clock ctx
        = renew_subscription registry subscription payment space additional_days clock ctx)"
proof (rule conjI; rule impI)
  assume pre: "space_uid space \<noteq> space_id subscription \<and>
    subscriber subscription = sender ctx \<and>
    unat (subscription_price space) * unat additional_days \<le> unat (coin_value payment) \<and>
    unat (if is_expired subscription clock then timestamp_ms clock
          else expires_at subscription) + unat additional_days * unat ONE_DAY_MS < 2 ^ 64 \<and>
    unat (duration_days subscription) + unat additional_days < 2 ^ 64"
  let ?base = "if expires_at subscription < timestamp_ms clock then timestamp_ms clock
               else expires_at subscription"
  let ?price = "subscription_price space * additional_days"
  from pre have fits: "unat ?base + unat additional_days * 86400000 < 2 ^ 64"
    by (simp add: is_expired_def)
  then have "unat additional_days * unat ONE_DAY_MS < 2 ^ 64"
    by simp
  then have ud: "unat (additional_days * ONE_DAY_MS) = unat additional_days * 86400000"
    by (simp add: unat_mul_no_overflow)
  with fits have "unat ?base + unat (additional_days * ONE_DAY_MS) < 2 ^ 64"
    by simp
  then have "unat (?base + additional_days * ONE_DAY_MS)
      = unat ?base + unat (additional_days * ONE_DAY_MS)"
    by (rule unat_add_no_overflow)
  with ud have new: "unat (?base + additional_days * ONE_DAY_MS)
      = unat ?base + unat additional_days * unat ONE_DAY_MS"
    by simp
  have "unat (coin_value payment) < 2 ^ 64"
    using unsigned_less [of "coin_value payment"] by simp
  with pre have "unat (subscription_price space) * unat additional_days < 2 ^ 64"
    by linarith
  then have up: "unat ?price = unat (subscription_price space) * unat additional_days"
    by (rule unat_mul_no_overflow)
  with pre have "?price \<le> coin_value payment"
    by (simp add: word_le_nat_alt)
  then have "unat (coin_value payment - ?price) = unat (coin_value payment) - unat ?price"
    by (rule unat_sub)
  with up have uc: "unat (coin_value payment - ?price)
      = unat (coin_value payment) - unat (subscription_price space) * unat additional_days"
    by simp
  from pre fits have run:
    "renew_subscription registry subscription payment space additional_days clock ctx
     = Inr (\<lparr>coin_uid = ObjID (tx_hash ctx) (ids_created ctx), coin_value = ?price\<rparr>,
            payment\<lparr>coin_value := coin_value payment - ?price\<rparr>,
            registry,
            subscription
              \<lparr>expires_at := ?base + additional_days * ONE_DAY_MS,
               duration_days := duration_days subscription + additional_days\<rparr>,
            [SubscriptionRenewed (subscription_uid subscription)
               (?base + additional_days * ONE_DAY_MS) ?price],
            ctx\<lparr>ids_created := ids_created ctx + 1\<rparr>)"
    by (intro renew_subscription_succeeds) simp_all
  from new have new': "unat (expires_at (subscription
              \<lparr>expires_at := ?base + additional_days * ONE_DAY_MS,
               duration_days := duration_days subscription + additional_days\<rparr>))
      = unat (if is_expired subscription clock then timestamp_ms clock
              else expires_at subscription) + unat additional_days * unat ONE_DAY_MS"
    by (simp add: is_expired_def)
  from run up uc new'
  show "\<exists>paid change subscription' events ctx'.
         renew_subscription registry subscription payment space additional_days clock ctx
           = Inr (paid, change, registry, subscription', events, ctx') \<and>
         unat (coin_value paid) = unat (subscription_price space) * unat additional_days \<and>
         unat (coin_value change)
           = unat (coin_value payment) - unat (subscription_price space) * unat additional_days \<and>
         space_id subscription' = space_id subscription \<and>
         unat (expires_at subscription')
           = unat (if is_expired subscription clock then timestamp_ms clock
                   else expires_at subscription) + unat additional_days * unat ONE_DAY_MS"
    by (intro exI conjI) (assumption | simp)+
next
  assume "subscription_price space2 = subscription_price space"
  then show "renew_subscription registry subscription payment space2 additional_days clock ctx
        = renew_subscription registry subscription payment space additional_days clock ctx"
    by (simp add: renew_subscription_def)
qed


theorem renew_subscription_any_space_witness:
  "space_uid space_B \<noteq> space_id sub_A \<and>
   subscriber sub_A = sender fan_ctx \<and>
   subscription_price space_B = 1 \<and> subscription_price space_A = 100 \<and>
   renew_subscription fan_registered sub_A \<lparr>coin_uid = ObjID 5 0, coin_value = 1\<rparr>
     space_B 1 \<lparr>timestamp_ms = 6000\<rparr> fan_ctx
   = Inr (\<lparr>coin_uid = ObjID 7 0, coin_value = 1\<rparr>,
          \<lparr>coin_uid = ObjID 5 0, coin_value = 0\<rparr>, fan_registered,
          sub_A\<lparr>expires_at := 518405000, duration_days := 6\<rparr>,
          [SubscriptionRenewed (ObjID 7 1) 518405000 1],
          \<lparr>sender = 20, tx_hash = 7, ids_created = 1\<rparr>) \<and>
   unat (coin_value \<lparr>coin_uid = ObjID 7 0, coin_value = 1\<rparr>)
     = unat (subscription_price space_B) * unat (1 :: u64) \<and>
   space_id (sub_A\<lparr>expires_at := 518405000, duration_days := 6\<rparr>) = space_uid space_A \<and>
   unat (expires_at (sub_A\<lparr>expires_at := 518405000, duration_days := 6\<rparr>))
     = unat (expires_at sub_A) + unat (1 :: u64) * unat ONE_DAY_MS \<and>
   renew_subscription fan_registered sub_A \<lparr>coin_uid = ObjID 5 0, coin_value = 1\<rparr>
     (space_A\<lparr>subscription_price := 1\<rparr>) 1 \<lparr>timestamp_ms = 6000\<rparr> fan_ctx
   = renew_subscription fan_registered sub_A \<lparr>coin_uid = ObjID 5 0, coin_value = 1\<rparr>
     space_B 1 \<lparr>timestamp_ms = 6000\<rparr> fan_ctx"
proof -
  have other: "space_uid space_B \<noteq> space_id sub_A"
    by (simp add: space_B_def sub_A_def)
  have own: "subscriber sub_A = sender fan_ctx"
    by (simp add: sub_A_def fan_ctx_def)
  have prices: "subscription_price space_B = 1 \<and> subscription_price space_A = 100"
    by (simp add: space_A_def space_B_def)
  have home: "space_id sub_A = space_uid space_A"
    by (simp add: sub_A_def space_A_def)
  have active: "\<not> is_expired sub_A \<lparr>timestamp_ms = 6000\<rparr>"
    by (simp add: is_expired_def sub_A_def)
  have run: "renew_subscription fan_registered sub_A
     \<lparr>coin_uid = ObjID 5 0, coin_value = 1\<rparr>
     space_B 1 \<lparr>timestamp_ms = 6000\<rparr> fan_ctx
   = Inr (\<lparr>coin_uid = ObjID 7 0, coin_value = 1\<rparr>,
          \<lparr>coin_uid = ObjID 5 0, coin_value = 0\<rparr>, fan_registered,
          sub_A\<lparr>expires_at := 518405000, duration_days := 6\<rparr>,
          [SubscriptionRenewed (ObjID 7 1) 518405000 1],
          \<lparr>sender = 20, tx_hash = 7, ids_created = 1\<rparr>)"
    by (simp add: renew_subscription_def Let_def mul_u64_def add_u64_def coin_split_def
          object_new_def ONE_DAY_MS_def sub_A_def fan_ctx_def space_B_def)
  have pre: "space_uid space_B \<noteq> space_id sub_A \<and>
    subscriber sub_A = sender fan_ctx \<and>
    unat (subscription_price space_B) * unat (1 :: u64)
      \<le> unat (coin_value \<lparr>coin_uid = ObjID 5 0, coin_value = 1\<rparr>) \<and>
    unat (if is_expired sub_A \<lparr>timestamp_ms = 6000\<rparr>
          then timestamp_ms \<lparr>timestamp_ms = 6000\<rparr>
          else expires_at sub_A) + unat (1 :: u64) * unat ONE_DAY_MS < 2 ^ 64 \<and>
    unat (duration_days sub_A) + unat (1 :: u64) < 2 ^ 64"
    using other own active by (simp add: sub_A_def space_B_def)
  from renew_subscription_any_space [THEN conjunct1, THEN mp, OF pre, of fan_registered]
  obtain paid change subscription' events ctx'
    where r: "renew_subscription fan_registered sub_A
                \<lparr>coin_uid = ObjID 5 0, coin_value = 1\<rparr> space_B 1 \<lparr>timestamp_ms = 6000\<rparr>
                fan_ctx
              = Inr (paid, change, fan_registered, subscription', events, ctx')"
      and p: "unat (coin_value paid) = unat (subscription_price space_B) * unat (1 :: u64)"
      and h: "space_id subscription' = space_id sub_A"
      and e: "unat (expires_at subscription')
                = unat (if is_expired sub_A \<lparr>timestamp_ms = 6000\<rparr>
                        then timestamp_ms \<lparr>timestamp_ms = 6000\<rparr>
                        else expires_at sub_A) + unat (1 :: u64) * unat ONE_DAY_MS"
    by blast
  from r run have "paid = \<lparr>coin_uid = ObjID 7 0, coin_value = 1\<rparr>"
    and "subscription' = sub_A\<lparr>expires_at := 518405000, duration_days := 6\<rparr>"
    by simp_all
  with p h e active
  have facts: "unat (coin_value \<lparr>coin_uid = ObjID 7 0, coin_value = 1\<rparr>)
       = unat (subscription_price space_B) * unat (1 :: u64) \<and>
     space_id (sub_A\<lparr>expires_at := 518405000, duration_days := 6\<rparr>) = space_id sub_A \<and>
     unat (expires_at (sub_A\<lparr>expires_at := 518405000, duration_days := 6\<rparr>))
       = unat (expires_at sub_A) + unat (1 :: u64) * unat ONE_DAY_MS"
    by metis
  have same: "subscription_price (space_A\<lparr>subscription_price := 1\<rparr>)
      = subscription_price space_B"
    by (simp add: space_B_def)
  note indep = renew_subscription_any_space
    [THEN conjunct2, THEN mp, OF same, of fan_registered sub_A
       "\<lparr>coin_uid = ObjID 5 0, coin_value = 1\<rparr>" 1 "\<lparr>timestamp_ms = 6000\<rparr>" fan_ctx]
  from facts home
  have facts': "unat (coin_value \<lparr>coin_uid = ObjID 7 0, coin_value = 1\<rparr>)
       = unat (subscription_price space_B) * unat (1 :: u64) \<and>
     space_id (sub_A\<lparr>expires_at := 518405000, duration_days := 6\<rparr>) = space_uid space_A \<and>
     unat (expires_at (sub_A\<lparr>expires_at := 518405000, duration_days := 6\<rparr>))
       = unat (expires_at sub_A) + unat (1 :: u64) * unat ONE_DAY_MS"
    by metis
  from other own prices run facts' indep show ?thesis
    by blast
qed

end
